theory Spec2Isabelle
  imports Complex_Main "HOL-Library.Sublist" "HOL-Library.Log_Nat"
begin

section \<open>x402-fetch-mcp: the tool server of \<^verbatim>\<open>src/index.js\<close>\<close>

text \<open>
  The development embeds the module \<^verbatim>\<open>src/index.js\<close>: its start-up code, the
  construction of the fetch options, the settlement header lookup, the decoding of the
  settlement receipt and the handler of the tool calls.

  Conventions of the embedding:
  \<^item> a JavaScript string is a \<open>string\<close>, one \<open>char\<close> per code unit; lines written with
    \<^verbatim>\<open>console.error\<close> are the bytes that reach stderr;
  \<^item> a thrown value is an \<^verbatim>\<open>Error\<close> object, of which the code reads the message only;
  \<^item> a function that can throw returns \<open>js_error + 'a\<close>, with \<open>Inl\<close> for the throw;
  \<^item> built-ins of the JavaScript runtime whose results the code passes on without
    looking at them (\<^verbatim>\<open>atob\<close>, \<^verbatim>\<open>JSON.parse\<close>, \<^verbatim>\<open>JSON.stringify\<close>, the conversions
    of arbitrary values to strings and numbers) are fields of a \<open>runtime\<close> record, so
    every theorem holds for whatever these built-ins compute;
  \<^item> the npm packages (\<^verbatim>\<open>x402-fetch\<close>, \<^verbatim>\<open>viem\<close>, the MCP SDK) are not part of the
    module: the payment-aware fetch is a field of the module state.
\<close>

subsection \<open>JavaScript values\<close>

datatype js_error = Error (message: string)

text \<open>
  A Number is an IEEE 754 double: a finite value (a rational), negative zero, the two
  infinities or NaN. \<open>Fin 0\<close> is positive zero.
\<close>

datatype jsnum = Fin rat | NegZero | PosInf | NegInf | NaN

text \<open>The values \<^verbatim>\<open>JSON.parse\<close> returns. An object lists its own properties.\<close>

datatype json =
    JNull
  | JBool bool
  | JNum jsnum
  | JStr string
  | JArr "json list"
  | JObj "(string \<times> json) list"

text \<open>ToBoolean, as \<^verbatim>\<open>if\<close>, \<^verbatim>\<open>||\<close>, \<^verbatim>\<open>&&\<close>, \<^verbatim>\<open>!\<close> and \<^verbatim>\<open>?:\<close> apply it.\<close>

fun truthy_num :: "jsnum \<Rightarrow> bool" where
  "truthy_num (Fin r) = (r \<noteq> 0)"
| "truthy_num NegZero = False"
| "truthy_num NaN = False"
| "truthy_num PosInf = True"
| "truthy_num NegInf = True"

fun truthy :: "json \<Rightarrow> bool" where
  "truthy JNull = False"
| "truthy (JBool b) = b"
| "truthy (JNum n) = truthy_num n"
| "truthy (JStr s) = (s \<noteq> [])"
| "truthy (JArr xs) = True"
| "truthy (JObj kvs) = True"

text \<open>
  \<^verbatim>\<open>a || b\<close> on a string that may be \<^verbatim>\<open>null\<close> (the result of \<^verbatim>\<open>Headers.get\<close>, an
  environment variable): the empty string is falsy, as \<^verbatim>\<open>null\<close> is.
\<close>

definition truthy_str :: "string option \<Rightarrow> bool" where
  "truthy_str v = (case v of None \<Rightarrow> False | Some s \<Rightarrow> s \<noteq> [])"

definition or_str :: "string option \<Rightarrow> string option \<Rightarrow> string option" where
  "or_str a b = (if truthy_str a then a else b)"

text \<open>
  Property access \<^verbatim>\<open>v.name\<close> for the names the module reads (\<^verbatim>\<open>amount\<close>,
  \<^verbatim>\<open>txHash\<close>, \<^verbatim>\<open>settled\<close>, none of them defined on a built-in prototype): it throws
  a TypeError on \<^verbatim>\<open>null\<close>, is the own property of an object, and \<^verbatim>\<open>undefined\<close>
  (\<open>None\<close>) otherwise.
\<close>

fun get_prop :: "json \<Rightarrow> string \<Rightarrow> js_error + json option" where
  "get_prop JNull name = Inl (Error (''Cannot read properties of null (reading '' @ name @ '')''))"
| "get_prop (JObj kvs) name = Inr (map_of kvs name)"
| "get_prop v name = Inr None"

text \<open>\<^verbatim>\<open>v || d\<close> where \<open>v\<close> may be \<^verbatim>\<open>undefined\<close>.\<close>

definition js_or :: "json option \<Rightarrow> json \<Rightarrow> json" where
  "js_or v d = (case v of None \<Rightarrow> d | Some j \<Rightarrow> if truthy j then j else d)"

text \<open>\<^verbatim>\<open>String.prototype.includes\<close>.\<close>

fun str_includes :: "string \<Rightarrow> string \<Rightarrow> bool" where
  "str_includes [] p = (p = [])"
| "str_includes (c # cs) p = (prefix p (c # cs) \<or> str_includes cs p)"

text \<open>
  The decimal digits of a non-negative integer (Number::toString below \<open>10^21\<close>);
  \<open>digit_char\<close> is applied to numbers below ten only.
\<close>

definition digit_char :: "nat \<Rightarrow> char" where
  "digit_char d = ''0123456789'' ! d"

fun show_nat :: "nat \<Rightarrow> string" where
  "show_nat n = (if n < 10 then [digit_char n] else show_nat (n div 10) @ [digit_char (n mod 10)])"

declare show_nat.simps [simp del]

subsection \<open>The runtime's built-ins\<close>

record runtime =
  atob :: "string \<Rightarrow> js_error + string"
  json_parse :: "string \<Rightarrow> js_error + json"
  json_stringify :: "json \<Rightarrow> string"
  to_string :: "json \<Rightarrow> js_error + string"
  to_number :: "json \<Rightarrow> js_error + jsnum"
  number_to_string :: "rat \<Rightarrow> string"

text \<open>
  \<open>json_stringify\<close> is \<^verbatim>\<open>JSON.stringify(v, null, 2)\<close>; \<open>to_string\<close> is ToString, as a
  template literal applies it; \<open>to_number\<close> is ToNumber on a value that is neither a
  Number nor a Boolean. Both can throw a TypeError: a parsed object may carry own
  properties \<^verbatim>\<open>toString\<close> and \<^verbatim>\<open>valueOf\<close> that are not callable.
  \<open>number_to_string\<close> is Number::toString on a finite value, which does not throw.
\<close>

subsection \<open>Number arithmetic: division and \<^verbatim>\<open>toFixed(6)\<close>\<close>

text \<open>
  Rounding of an exact value to the nearest double, ties to even: 53 bits of
  precision, exponents from \<open>-1022\<close> (below it the spacing stays \<open>2^-1074\<close>), overflow
  to infinity from \<open>2^1024\<close>, underflow to a signed zero.
\<close>

definition floor_log2 :: "rat \<Rightarrow> int" where
  "floor_log2 a =
     (let (p, q) = quotient_of a; d = bitlen p - bitlen q
      in if 2 powi d \<le> a then d else d - 1)"

definition round_half_even :: "rat \<Rightarrow> int" where
  "round_half_even y =
     (let f = \<lfloor>y\<rfloor>; r = y - of_int f
      in if r < 1 / 2 then f else if 1 / 2 < r then f + 1 else if even f then f else f + 1)"

definition round_double :: "rat \<Rightarrow> jsnum" where
  "round_double r =
     (if r = 0 then Fin 0
      else
        let a = \<bar>r\<bar>;
            e = max (floor_log2 a) (- 1022);
            ulp = 2 powi (e - 52);
            m = round_half_even (a / ulp);
            v = of_int m * ulp
        in if 2 ^ 1024 \<le> v then (if r < 0 then NegInf else PosInf)
           else if m = 0 then (if r < 0 then NegZero else Fin 0)
           else Fin (if r < 0 then - v else v))"

text \<open>\<^verbatim>\<open>x / 1000000\<close>: the divisor is a positive finite double.\<close>

fun div_million :: "jsnum \<Rightarrow> jsnum" where
  "div_million (Fin r) = round_double (r / 1000000)"
| "div_million NegZero = NegZero"
| "div_million PosInf = PosInf"
| "div_million NegInf = NegInf"
| "div_million NaN = NaN"

text \<open>
  \<^verbatim>\<open>Number.prototype.toFixed\<close> with six fraction digits, step by step as ECMA-262
  gives it: a value that is not finite is rendered by Number::toString; the sign is
  split off; from \<open>10^21\<close> the rendering is Number::toString; below, the integer \<open>n\<close>
  nearest to \<open>x * 10^6\<close> (the larger of two) is written in decimal, padded on the left
  with zeros to seven digits, and the point is put before the last six.
\<close>

definition round_half_up :: "rat \<Rightarrow> nat" where
  "round_half_up y = nat \<lfloor>y + 1 / 2\<rfloor>"

definition fixed_digits :: "nat \<Rightarrow> string" where
  "fixed_digits n =
     (let m = show_nat n;
          m = (if length m \<le> 6 then replicate (7 - length m) (CHR ''0'') @ m else m);
          k = length m
      in take (k - 6) m @ ''.'' @ drop (k - 6) m)"

definition toFixed6 :: "runtime \<Rightarrow> jsnum \<Rightarrow> string" where
  "toFixed6 rt x =
     (case x of
        NaN \<Rightarrow> ''NaN''
      | PosInf \<Rightarrow> ''Infinity''
      | NegInf \<Rightarrow> ''-Infinity''
      | NegZero \<Rightarrow> fixed_digits 0
      | Fin r \<Rightarrow>
          (let s = (if r < 0 then ''-'' else []); a = \<bar>r\<bar>
           in if 10 ^ 21 \<le> a then s @ number_to_string rt a
              else s @ fixed_digits (round_half_up (a * 10 ^ 6))))"

text \<open>\<^verbatim>\<open>Number(v)\<close>: it throws what the conversion of a string, array or object throws.\<close>

definition Number :: "runtime \<Rightarrow> json \<Rightarrow> js_error + jsnum" where
  "Number rt v =
     (case v of
        JNum n \<Rightarrow> Inr n
      | JBool b \<Rightarrow> Inr (Fin (if b then 1 else 0))
      | JNull \<Rightarrow> Inr (Fin 0)
      | _ \<Rightarrow> to_number rt v)"

subsection \<open>Configuration and module state\<close>

text \<open>
  \<^verbatim>\<open>viem/chains\<close> exports the two chains; the module reads their \<^verbatim>\<open>name\<close>
  (\<^verbatim>\<open>"Base"\<close> and \<^verbatim>\<open>"Base Sepolia"\<close> in viem).
\<close>

datatype chain = base | baseSepolia

fun chain_name :: "chain \<Rightarrow> string" where
  "chain_name base = ''Base''"
| "chain_name baseSepolia = ''Base Sepolia''"

record fetch_options =
  fo_method :: string
  fo_headers :: "string \<rightharpoonup> string"
  fo_body :: "string option"

text \<open>
  A \<^verbatim>\<open>Response\<close>: \<open>resp_headers\<close> maps a lower-case header name to what
  \<^verbatim>\<open>headers.get\<close> returns for it; \<open>resp_json\<close> and \<open>resp_text\<close> are the results of
  \<^verbatim>\<open>await response.json()\<close> and \<^verbatim>\<open>await response.text()\<close>.
\<close>

record response =
  resp_status :: nat
  resp_statusText :: string
  resp_headers :: "string \<rightharpoonup> string"
  resp_json :: "js_error + json"
  resp_text :: "js_error + string"

text \<open>
  The constants of the module once start-up is over: \<^verbatim>\<open>NETWORK\<close>, \<^verbatim>\<open>chain\<close>,
  \<^verbatim>\<open>account.address\<close> and \<^verbatim>\<open>x402Fetch\<close>, the fetch that
  \<^verbatim>\<open>wrapFetchWithPayment\<close> returns.
\<close>

record module_state =
  cfg_NETWORK :: string
  cfg_chain :: chain
  account_address :: string
  x402Fetch :: "string \<Rightarrow> fetch_options \<Rightarrow> js_error + response"

subsection \<open>Start-up\<close>

text \<open>
  The environment is a map from variable names to values. \<open>privateKeyToAccount\<close>,
  \<open>parse_BigInt\<close> and \<open>wrapFetchWithPayment\<close> are the library calls of lines 25 to 35,
  \<open>connect\<close> is \<^verbatim>\<open>server.connect(transport)\<close>, \<open>inspect\<close> is the rendering of an error
  that \<^verbatim>\<open>console.error\<close> prints. \<^verbatim>\<open>process.exit\<close> ends the process at once; an
  exception at the top level of the module ends it as well.
\<close>

record startup_env =
  privateKeyToAccount :: "string \<Rightarrow> js_error + string"
  parse_BigInt :: "string \<Rightarrow> js_error + int"
  wrapFetchWithPayment :: "string \<Rightarrow> chain \<Rightarrow> int \<Rightarrow> string \<Rightarrow> fetch_options \<Rightarrow> js_error + response"
  connect :: "js_error + unit"
  inspect :: "js_error \<Rightarrow> string"

text \<open>
  How start-up ends: the process has exited with a code, an exception was not caught,
  or the server is connected and serves the tools. Each carries the lines logged.
\<close>

datatype process =
    Exited nat "string list"
  | Uncaught js_error "string list"
  | Serving module_state "string list"

definition or_default :: "string option \<Rightarrow> string \<Rightarrow> string" where
  "or_default v d = (case v of None \<Rightarrow> d | Some s \<Rightarrow> if s = [] then d else s)"

text \<open>Lines 23 to 35 and \<^verbatim>\<open>main\<close>: what runs once the key is known to be there.\<close>

definition start_server :: "startup_env \<Rightarrow> (string \<rightharpoonup> string) \<Rightarrow> string \<Rightarrow> string \<Rightarrow> process" where
  "start_server lib env PRIVATE_KEY NETWORK =
     (let chain = (if NETWORK = ''base'' then base else baseSepolia)
      in case privateKeyToAccount lib PRIVATE_KEY of
           Inl e \<Rightarrow> Uncaught e []
         | Inr address \<Rightarrow>
            (case parse_BigInt lib (or_default (env ''MAX_PAYMENT_USDC'') ''1000000'') of
               Inl e \<Rightarrow> Uncaught e []
             | Inr maxPaymentUSDC \<Rightarrow>
                (let st = \<lparr>cfg_NETWORK = NETWORK, cfg_chain = chain, account_address = address,
                           x402Fetch = wrapFetchWithPayment lib address chain maxPaymentUSDC\<rparr>;
                     logged = [''[x402-fetch-mcp] Starting server...'',
                            ''[x402-fetch-mcp] Wallet: '' @ address,
                            ''[x402-fetch-mcp] Network: '' @ chain_name chain]
                 in case connect lib of
                      Inl e \<Rightarrow> Exited 1 (logged @ [''[x402-fetch-mcp] Fatal error: '' @ inspect lib e])
                    | Inr u \<Rightarrow> Serving st (logged @ [''[x402-fetch-mcp] Server running on stdio'']))))"

text \<open>Lines 15 to 21: the configuration and the check of the key.\<close>

definition startup :: "startup_env \<Rightarrow> (string \<rightharpoonup> string) \<Rightarrow> process" where
  "startup lib env =
     (let NETWORK = or_default (env ''NETWORK'') ''baseSepolia'';
          missing = Exited 1 [''PRIVATE_KEY environment variable is required'']
      in case env ''PRIVATE_KEY'' of
           None \<Rightarrow> missing
         | Some PRIVATE_KEY \<Rightarrow>
             if PRIVATE_KEY = [] then missing else start_server lib env PRIVATE_KEY NETWORK)"

subsection \<open>The tool \<^verbatim>\<open>x402_fetch\<close>\<close>

text \<open>The arguments object of the tool, with the members its input schema declares.\<close>

record fetch_args =
  arg_url :: string
  arg_method :: "string option"
  arg_headers :: "(string \<rightharpoonup> string) option"
  arg_body :: "string option"

text \<open>
  Lines 100 to 110: the defaults of the destructuring and the fetch options. The body
  is attached when it is truthy and the method is one of three.
\<close>

definition method_of :: "fetch_args \<Rightarrow> string" where
  "method_of args = (case arg_method args of None \<Rightarrow> ''GET'' | Some m \<Rightarrow> m)"

definition headers_of :: "fetch_args \<Rightarrow> (string \<rightharpoonup> string)" where
  "headers_of args = (case arg_headers args of None \<Rightarrow> Map.empty | Some h \<Rightarrow> h)"

definition fetchOptions :: "fetch_args \<Rightarrow> fetch_options" where
  "fetchOptions args =
     (let method = method_of args; body = arg_body args;
          opts = \<lparr>fo_method = method, fo_headers = headers_of args, fo_body = None\<rparr>
      in if truthy_str body \<and> (method = ''POST'' \<or> method = ''PUT'' \<or> method = ''PATCH'')
         then opts\<lparr>fo_body := body\<rparr>
         else opts)"

text \<open>Lines 130 to 132: the settlement header lookup.\<close>

definition actualPaymentResponse :: "response \<Rightarrow> string option" where
  "actualPaymentResponse r =
     (let paymentResponse = resp_headers r ''x-payment-response'';
          paymentResponseAlt = resp_headers r ''payment-response''
      in or_str paymentResponse paymentResponseAlt)"

text \<open>
  Lines 138 to 145: the payment information of a decoded settlement receipt. The
  reading of \<^verbatim>\<open>decoded.amount\<close> throws when \<^verbatim>\<open>decoded\<close> is null, the conversion of the
  amount to a number can throw; nothing after them does.
\<close>

record payment_info =
  txHash :: json
  amount :: "string option"
  amountRaw :: json
  network :: string
  settled :: json

definition amountUsdc :: "runtime \<Rightarrow> json option \<Rightarrow> js_error + string option" where
  "amountUsdc rt a =
     (case a of
        None \<Rightarrow> Inr None
      | Some v \<Rightarrow>
          if truthy v
          then (case Number rt v of
                  Inl e \<Rightarrow> Inl e
                | Inr n \<Rightarrow> Inr (Some (toFixed6 rt (div_million n))))
          else Inr None)"

definition paymentInfo :: "runtime \<Rightarrow> chain \<Rightarrow> json \<Rightarrow> js_error + payment_info" where
  "paymentInfo rt ch decoded =
     (case get_prop decoded ''amount'' of
        Inl e \<Rightarrow> Inl e
      | Inr a \<Rightarrow>
         (case amountUsdc rt a of
            Inl e \<Rightarrow> Inl e
          | Inr usdc \<Rightarrow>
             (case get_prop decoded ''txHash'' of
                Inl e \<Rightarrow> Inl e
              | Inr t \<Rightarrow>
                 (case get_prop decoded ''settled'' of
                    Inl e \<Rightarrow> Inl e
                  | Inr s \<Rightarrow>
                      Inr \<lparr>txHash = js_or t JNull,
                           amount = (case usdc of
                                       None \<Rightarrow> None
                                     | Some u \<Rightarrow> if u = [] then None else Some (u @ '' USDC'')),
                           amountRaw = js_or a JNull,
                           network = chain_name ch,
                           settled = js_or s (JBool False)\<rparr>))))"

text \<open>Lines 137 to 145: decoding, up to the assignment of \<^verbatim>\<open>paymentInfo\<close> or the first throw.\<close>

definition decode_settlement :: "runtime \<Rightarrow> chain \<Rightarrow> string \<Rightarrow> js_error + payment_info" where
  "decode_settlement rt ch v =
     (case atob rt v of
        Inl e \<Rightarrow> Inl e
      | Inr bytes \<Rightarrow>
         (case json_parse rt bytes of
            Inl e \<Rightarrow> Inl e
          | Inr decoded \<Rightarrow> paymentInfo rt ch decoded))"

text \<open>The two emoji of the log lines, in UTF-8.\<close>

definition check_mark :: string where
  "check_mark = [CHR 0xE2, CHR 0x9C, CHR 0x85]"

definition info_sign :: string where
  "info_sign = [CHR 0xE2, CHR 0x84, CHR 0xB9, CHR 0xEF, CHR 0xB8, CHR 0x8F]"

text \<open>\<^verbatim>\<open>v || 'N/A'\<close> inside a template literal.\<close>

definition or_NA :: "runtime \<Rightarrow> json \<Rightarrow> js_error + string" where
  "or_NA rt v = (if truthy v then to_string rt v else Inr ''N/A'')"

text \<open>
  Lines 146 to 150: the five lines logged once \<^verbatim>\<open>paymentInfo\<close> is assigned. The template
  literals of the second and of the fifth line convert a decoded value to a string,
  which can throw: the result is the lines logged so far and the exception, if any.
\<close>

definition payment_log :: "runtime \<Rightarrow> payment_info \<Rightarrow> string list \<times> js_error option" where
  "payment_log rt p =
     (let made = ''[x402-fetch] '' @ check_mark @ '' PAYMENT MADE!''
      in case or_NA rt (txHash p) of
           Inl e \<Rightarrow> ([made], Some e)
         | Inr hash \<Rightarrow>
            (let upto_network =
                   [made,
                    ''[x402-fetch]    TX Hash: '' @ hash,
                    ''[x402-fetch]    Amount: '' @ (case amount p of None \<Rightarrow> ''N/A'' | Some a \<Rightarrow> a),
                    ''[x402-fetch]    Network: '' @ network p]
             in case to_string rt (settled p) of
                  Inl e \<Rightarrow> (upto_network, Some e)
                | Inr s \<Rightarrow> (upto_network @ [''[x402-fetch]    Settled: '' @ s], None)))"

text \<open>
  Lines 134 to 156: the lines logged and the value of \<^verbatim>\<open>paymentInfo\<close> after the
  block. The inner \<^verbatim>\<open>catch\<close> logs the raw header. An exception of the decoding leaves
  \<^verbatim>\<open>paymentInfo\<close> null; an exception of the logging comes after the assignment and
  leaves it set.
\<close>

definition settlement :: "runtime \<Rightarrow> chain \<Rightarrow> string option \<Rightarrow> string list \<times> payment_info option" where
  "settlement rt ch actual =
     (let none = ([''[x402-fetch] '' @ info_sign @ '' No payment was required or made''], None)
      in case actual of
           None \<Rightarrow> none
         | Some v \<Rightarrow>
             if v = [] then none
             else (let raw = ''[x402-fetch] Payment response (raw): '' @ v
                   in case decode_settlement rt ch v of
                        Inl e \<Rightarrow> ([raw], None)
                      | Inr p \<Rightarrow>
                         (case payment_log rt p of
                            (logged, None) \<Rightarrow> (logged, Some p)
                          | (logged, Some e) \<Rightarrow> (logged @ [raw], Some p))))"

text \<open>Lines 122 to 127: the content, pretty-printed when the content type says JSON.\<close>

definition read_content :: "runtime \<Rightarrow> response \<Rightarrow> string \<Rightarrow> js_error + string" where
  "read_content rt r contentType =
     (if str_includes contentType ''application/json''
      then (case resp_json r of Inl e \<Rightarrow> Inl e | Inr j \<Rightarrow> Inr (json_stringify rt j))
      else resp_text r)"

text \<open>
  What a tool call returns: \<open>result_text\<close> is the object whose \<^verbatim>\<open>JSON.stringify\<close> is
  the text of the result (for an unknown tool, the text itself); \<open>isError\<close> is false
  where the result has no such field. \<open>Success\<close> is the object with \<^verbatim>\<open>success: true\<close>
  and the five fields of \<open>fetch_success\<close>, \<open>Failure\<close> the object with
  \<^verbatim>\<open>success: false\<close> and the \<^verbatim>\<open>error\<close> message, \<open>WalletInfo\<close> the object with the
  address, the network and the name of the chain.
\<close>

record fetch_success =
  status :: nat
  statusText :: string
  paymentMade :: bool
  payment :: "payment_info option"
  content :: string

datatype payload =
    Success fetch_success
  | Failure string
  | WalletInfo string string string
  | Text string

record tool_result =
  result_text :: payload
  isError :: bool

definition separator :: string where
  "separator = ''[x402-fetch] ========================================''"

text \<open>
  Lines 103 to 175, the body of the \<^verbatim>\<open>try\<close>: the lines logged so far, and either the
  exception that leaves the block or the value returned.
\<close>

definition x402_fetch_try ::
  "runtime \<Rightarrow> module_state \<Rightarrow> fetch_args \<Rightarrow> string list \<times> (js_error + tool_result)" where
  "x402_fetch_try rt st args =
     (let url = arg_url args; method = method_of args;
          log1 = [separator,
                  ''[x402-fetch] Fetching: '' @ method @ '' '' @ url,
                  ''[x402-fetch] Wallet: '' @ account_address st]
      in case x402Fetch st url (fetchOptions args) of
           Inl e \<Rightarrow> (log1, Inl e)
         | Inr response \<Rightarrow>
            (let contentType = or_default (resp_headers response ''content-type'') [];
                 log2 = [''[x402-fetch] Response status: '' @ show_nat (resp_status response)
                           @ '' '' @ resp_statusText response,
                         ''[x402-fetch] Content-Type: '' @ contentType]
             in case read_content rt response contentType of
                  Inl e \<Rightarrow> (log1 @ log2, Inl e)
                | Inr contents \<Rightarrow>
                   (let actual = actualPaymentResponse response;
                        (log3, info) = settlement rt (cfg_chain st) actual;
                        log4 = [''[x402-fetch] Content length: '' @ show_nat (length contents) @ '' chars'',
                                separator]
                    in (log1 @ log2 @ log3 @ log4,
                        Inr \<lparr>result_text = Success
                               \<lparr>status = resp_status response,
                                statusText = resp_statusText response,
                                paymentMade = truthy_str actual,
                                payment = info,
                                content = contents\<rparr>,
                             isError = False\<rparr>))))"

text \<open>Lines 102 to 189: the \<^verbatim>\<open>try\<close> with its \<^verbatim>\<open>catch\<close>.\<close>

definition x402_fetch :: "runtime \<Rightarrow> module_state \<Rightarrow> fetch_args \<Rightarrow> string list \<times> tool_result" where
  "x402_fetch rt st args =
     (case x402_fetch_try rt st args of
        (logged, Inr result) \<Rightarrow> (logged, result)
      | (logged, Inl error) \<Rightarrow> (logged, \<lparr>result_text = Failure (message error), isError = True\<rparr>))"

text \<open>
  Lines 96 to 216: the handler of the tool calls. The member \<^verbatim>\<open>arguments\<close> of a call is
  optional (\<open>None\<close> when the request has none). Line 100 destructures it before the
  \<^verbatim>\<open>try\<close> of line 102: without arguments it throws a TypeError, which leaves the
  handler. The result is the lines logged, and either the exception that leaves the
  handler or the value it returns.
\<close>

definition destructure_error :: js_error where
  "destructure_error = Error ''Cannot destructure property 'url' of 'args' as it is undefined.''"

definition call_tool ::
  "runtime \<Rightarrow> module_state \<Rightarrow> string \<Rightarrow> fetch_args option
     \<Rightarrow> string list \<times> (js_error + tool_result)" where
  "call_tool rt st name arguments =
     (if name = ''x402_fetch''
      then (case arguments of
              None \<Rightarrow> ([], Inl destructure_error)
            | Some args \<Rightarrow> (case x402_fetch rt st args of (logged, result) \<Rightarrow> (logged, Inr result)))
      else if name = ''x402_wallet_info''
      then ([], Inr \<lparr>result_text = WalletInfo (account_address st) (cfg_NETWORK st)
                                       (chain_name (cfg_chain st)),
                     isError = False\<rparr>)
      else ([], Inr \<lparr>result_text = Text (''Unknown tool: '' @ name), isError = True\<rparr>))"

subsection \<open>The rendering the specification asks of an amount\<close>

text \<open>
  The specification's words for \<open>payment.amount\<close>: the value with exactly six decimal
  places. \<open>six_decimals x\<close> writes the sign, the integer part, a point and six
  fraction digits of \<open>x\<close> rounded to a multiple of \<open>10^-6\<close> (a tie goes away from zero).
\<close>

definition pad6 :: "nat \<Rightarrow> string" where
  "pad6 k = replicate (6 - length (show_nat k)) (CHR ''0'') @ show_nat k"

definition six_decimals :: "rat \<Rightarrow> string" where
  "six_decimals x =
     (let u = round_half_up (\<bar>x\<bar> * 10 ^ 6)
      in (if x < 0 then ''-'' else []) @ show_nat (u div 10 ^ 6) @ ''.'' @ pad6 (u mod 10 ^ 6))"

text \<open>The last \<open>j\<close> decimal digits of a number, leading zeros included.\<close>

fun low_digits :: "nat \<Rightarrow> nat \<Rightarrow> string" where
  "low_digits 0 b = []"
| "low_digits (Suc j) b = low_digits j (b div 10) @ [digit_char (b mod 10)]"

text \<open>The value of a double that is finite; both zeros have the value 0.\<close>

definition finite_value :: "jsnum \<Rightarrow> rat option" where
  "finite_value x = (case x of Fin r \<Rightarrow> Some r | NegZero \<Rightarrow> Some 0 | _ \<Rightarrow> None)"

text \<open>A string of the shape digits, point, six digits, with an optional sign.\<close>

definition is_digit :: "char \<Rightarrow> bool" where
  "is_digit c = (c \<in> set ''0123456789'')"

definition has_six_decimals :: "string \<Rightarrow> bool" where
  "has_six_decimals s =
     (let t = (if take 1 s = ''-'' then drop 1 s else s);
          k = length t
      in 8 \<le> k \<and> t ! (k - 7) = CHR ''.''
         \<and> list_all is_digit (take (k - 7) t) \<and> list_all is_digit (drop (k - 6) t))"

subsection \<open>The payment-aware fetch\<close>

text \<open>
  Modelled from the spec: \<^verbatim>\<open>wrapFetchWithPayment\<close>, which builds \<^verbatim>\<open>x402Fetch\<close> on
  line 35, belongs to the package \<^verbatim>\<open>x402-fetch\<close> and is not under \<^verbatim>\<open>src/\<close>. The
  definitions of this subsection follow sections 3, 4.1 and 4.3 of the specification
  (Payment Policy, Challenge-Retry Client): one request; on a challenge, the policy,
  one signature, one retried request carrying the proof; the retried response is
  final, and a challenge on it is the error \<^verbatim>\<open>DoublePaymentChallenge\<close>.
\<close>

record payment_requirement =
  req_network :: string
  req_recipient :: string
  req_asset :: string
  req_amount :: int
  req_expiry :: int
  req_nonce :: string

record payment_authorization =
  auth_signer :: string
  auth_amount :: int
  auth_signature :: string
  auth_nonce :: string
  auth_valid_until :: int

datatype challenge = NotAChallenge | MalformedChallenge | Challenge payment_requirement

datatype reject_reason = ceiling_exceeded | network_mismatch | expired

datatype decision = Accept int | Reject reject_reason

text \<open>
  The collaborators of the client: the transport (\<open>transport env k\<close> answers the
  request issued after \<open>k\<close> earlier ones of the same call), the parser of the
  requirement in a challenge, the signing identity, the codec of the envelope and the
  name of the request header that carries it, and the configuration.
\<close>

record client_env =
  transport :: "nat \<Rightarrow> string \<Rightarrow> fetch_options \<Rightarrow> js_error + response"
  parse_requirement :: "response \<Rightarrow> payment_requirement option"
  sign :: "payment_requirement \<Rightarrow> int \<Rightarrow> js_error + payment_authorization"
  encode :: "payment_authorization \<Rightarrow> string"
  proof_header :: string
  ceiling :: int
  operating_network :: string
  now :: int

text \<open>
  Modelled from the spec: the Payment Policy of section 4.1, part of the missing
  \<^verbatim>\<open>wrapFetchWithPayment\<close>. It rejects an amount above the ceiling, then a network
  other than the configured one, then an expired requirement, and otherwise accepts
  exactly the required amount.
\<close>

definition decide :: "client_env \<Rightarrow> payment_requirement \<Rightarrow> decision" where
  "decide env q =
     (if ceiling env < req_amount q then Reject ceiling_exceeded
      else if req_network q \<noteq> operating_network env then Reject network_mismatch
      else if req_expiry q < now env then Reject expired
      else Accept (req_amount q))"

fun reason_text :: "reject_reason \<Rightarrow> string" where
  "reason_text ceiling_exceeded = ''ceiling-exceeded''"
| "reason_text network_mismatch = ''network-mismatch''"
| "reason_text expired = ''expired''"

text \<open>
  Modelled from the spec: \<open>decodeChallenge\<close> of section 4.2, part of the missing
  \<^verbatim>\<open>wrapFetchWithPayment\<close>. Only the status 402 is a challenge; a requirement that
  does not parse, or whose amount is zero or negative, is malformed.
\<close>

definition decodeChallenge :: "client_env \<Rightarrow> response \<Rightarrow> challenge" where
  "decodeChallenge env r =
     (if resp_status r \<noteq> 402 then NotAChallenge
      else case parse_requirement env r of
             None \<Rightarrow> MalformedChallenge
           | Some q \<Rightarrow> if req_amount q \<le> 0 then MalformedChallenge else Challenge q)"

text \<open>
  Modelled from the spec: step 6 of section 4.3, part of the missing
  \<^verbatim>\<open>wrapFetchWithPayment\<close>. The new request is the original one plus the proof.
\<close>

definition attach_payment :: "client_env \<Rightarrow> fetch_options \<Rightarrow> payment_authorization \<Rightarrow> fetch_options" where
  "attach_payment env opts auth =
     opts\<lparr>fo_headers := (fo_headers opts)(proof_header env \<mapsto> encode env auth)\<rparr>"

text \<open>
  A run of the client: the requests issued, in order, the authorizations signed, and
  the outcome (the response, or the error thrown to the caller).
\<close>

record client_run =
  requests :: "(string \<times> fetch_options) list"
  authorizations :: "payment_authorization list"
  outcome :: "js_error + response"

text \<open>
  Modelled from the spec: steps 6 to 8 of section 4.3 and its tie-break on a second
  challenge, part of the missing \<^verbatim>\<open>wrapFetchWithPayment\<close>. The retried request is
  issued once; its response is final, unless it is a challenge again.
\<close>

definition retry_with_payment ::
  "client_env \<Rightarrow> string \<Rightarrow> fetch_options \<Rightarrow> payment_authorization \<Rightarrow> client_run" where
  "retry_with_payment env url opts auth =
     (let paid = attach_payment env opts auth;
          issued = [(url, opts), (url, paid)]
      in case transport env 1 url paid of
           Inl e \<Rightarrow> \<lparr>requests = issued, authorizations = [auth], outcome = Inl e\<rparr>
         | Inr r \<Rightarrow>
             if decodeChallenge env r \<noteq> NotAChallenge
             then \<lparr>requests = issued, authorizations = [auth],
                   outcome = Inl (Error ''DoublePaymentChallenge'')\<rparr>
             else \<lparr>requests = issued, authorizations = [auth], outcome = Inr r\<rparr>)"

text \<open>
  Modelled from the spec: steps 1 to 5 of section 4.3, the missing
  \<^verbatim>\<open>wrapFetchWithPayment\<close> as a function of the request. A response that is no
  challenge is returned as it is; a malformed challenge, a refusal of the policy and a
  failure of the signing end the call with an error and without a retry.
\<close>

definition challenge_retry_client :: "client_env \<Rightarrow> string \<Rightarrow> fetch_options \<Rightarrow> client_run" where
  "challenge_retry_client env url opts =
     (let stop = (\<lambda>res. \<lparr>requests = [(url, opts)], authorizations = [], outcome = res\<rparr>)
      in case transport env 0 url opts of
           Inl e \<Rightarrow> stop (Inl e)
         | Inr r \<Rightarrow>
            (case decodeChallenge env r of
               NotAChallenge \<Rightarrow> stop (Inr r)
             | MalformedChallenge \<Rightarrow> stop (Inl (Error ''MalformedChallenge''))
             | Challenge q \<Rightarrow>
                (case decide env q of
                   Reject reason \<Rightarrow> stop (Inl (Error (''PaymentDeclined: '' @ reason_text reason)))
                 | Accept a \<Rightarrow>
                    (case sign env q a of
                       Inl e \<Rightarrow> stop (Inl e)
                     | Inr auth \<Rightarrow> retry_with_payment env url opts auth))))"

text \<open>The module state whose \<^verbatim>\<open>x402Fetch\<close> is this client.\<close>

definition with_client :: "client_env \<Rightarrow> module_state \<Rightarrow> module_state" where
  "with_client env st = st\<lparr>x402Fetch := (\<lambda>url opts. outcome (challenge_retry_client env url opts))\<rparr>"

subsection \<open>Examples\<close>

text \<open>
  A runtime for the examples. It agrees with JavaScript on the strings and values the
  examples apply it to (base64 texts of small JSON documents, in which \<^verbatim>\<open>1e400\<close>
  parses to \<^verbatim>\<open>Infinity\<close>; the strings of null, booleans and strings); \<^verbatim>\<open>atob\<close>,
  \<^verbatim>\<open>JSON.parse\<close> and the conversions throw on every other input. No example reaches
  \<open>number_to_string\<close>.
\<close>

definition sample_atob :: "string \<Rightarrow> js_error + string" where
  \<open>sample_atob s =
     (if s = [] then Inr []
      else if s = ''e30='' then Inr ''{}''
      else if s = ''bnVsbA=='' then Inr ''null''
      else if s = ''bm90IGpzb24='' then Inr ''not json''
      else if s = ''eyJhbW91bnQiOjUwMDAwMH0='' then Inr ''{"amount":500000}''
      else if s = ''eyJhbW91bnQiOjFlNDAwfQ=='' then Inr ''{"amount":1e400}''
      else if s = ''eyJhbW91bnQiOjUwMDAwMCwibmV0d29yayI6ImV0aGVyZXVtIn0=''
      then Inr ''{"amount":500000,"network":"ethereum"}''
      else Inl (Error ''The string to be decoded is not correctly encoded.''))\<close>

definition sample_json_parse :: "string \<Rightarrow> js_error + json" where
  \<open>sample_json_parse s =
     (if s = [] then Inl (Error ''Unexpected end of JSON input'')
      else if s = ''{}'' then Inr (JObj [])
      else if s = ''null'' then Inr JNull
      else if s = ''{"amount":500000}'' then Inr (JObj [(''amount'', JNum (Fin 500000))])
      else if s = ''{"amount":1e400}'' then Inr (JObj [(''amount'', JNum PosInf)])
      else if s = ''{"amount":500000,"network":"ethereum"}''
      then Inr (JObj [(''amount'', JNum (Fin 500000)), (''network'', JStr ''ethereum'')])
      else Inl (Error ''Unexpected token''))\<close>

fun sample_to_string :: "json \<Rightarrow> js_error + string" where
  "sample_to_string JNull = Inr ''null''"
| "sample_to_string (JBool b) = Inr (if b then ''true'' else ''false'')"
| "sample_to_string (JStr s) = Inr s"
| "sample_to_string v = Inl (Error ''Cannot convert object to primitive value'')"

definition sample_runtime :: runtime where
  "sample_runtime =
     \<lparr>atob = sample_atob, json_parse = sample_json_parse,
      json_stringify = (\<lambda>v. if v = JObj [] then ''{}'' else ''null''),
      to_string = sample_to_string,
      to_number = (\<lambda>v. Inl (Error ''Cannot convert object to primitive value'')),
      number_to_string = (\<lambda>x. ''1e+21'')\<rparr>"

text \<open>A response \<^verbatim>\<open>200 OK\<close> with the body \<^verbatim>\<open>hello\<close> and the given headers.\<close>

definition sample_response :: "(string \<rightharpoonup> string) \<Rightarrow> response" where
  "sample_response h =
     \<lparr>resp_status = 200, resp_statusText = ''OK'', resp_headers = h,
      resp_json = Inl (Error ''Unexpected token h in JSON''), resp_text = Inr ''hello''\<rparr>"

text \<open>A module state whose fetch gives the same result for every request.\<close>

definition sample_state :: "(js_error + response) \<Rightarrow> module_state" where
  "sample_state r =
     \<lparr>cfg_NETWORK = ''baseSepolia'', cfg_chain = baseSepolia, account_address = ''0xabc'',
      x402Fetch = (\<lambda>url opts. r)\<rparr>"

definition sample_args :: fetch_args where
  "sample_args =
     \<lparr>arg_url = ''https://example.org/'', arg_method = None, arg_headers = None,
      arg_body = Some ''data''\<rparr>"

text \<open>A server that answers every request, paid or not, with a challenge.\<close>

definition sample_requirement :: payment_requirement where
  "sample_requirement =
     \<lparr>req_network = ''base-sepolia'', req_recipient = ''0xdef'', req_asset = ''USDC'',
      req_amount = 500000, req_expiry = 100, req_nonce = ''n1''\<rparr>"

definition sample_authorization :: payment_authorization where
  "sample_authorization =
     \<lparr>auth_signer = ''0xabc'', auth_amount = 500000, auth_signature = ''sig'',
      auth_nonce = ''n1'', auth_valid_until = 100\<rparr>"

definition challenge_response :: response where
  "challenge_response =
     \<lparr>resp_status = 402, resp_statusText = ''Payment Required'', resp_headers = Map.empty,
      resp_json = Inl (Error ''Unexpected end of JSON input''), resp_text = Inr []\<rparr>"

definition insisting_server :: client_env where
  "insisting_server =
     \<lparr>transport = (\<lambda>k url opts. Inr challenge_response),
      parse_requirement = (\<lambda>r. Some sample_requirement),
      sign = (\<lambda>q a. Inr sample_authorization),
      encode = (\<lambda>auth. ''envelope''),
      proof_header = ''x-payment'',
      ceiling = 1000000,
      operating_network = ''base-sepolia'',
      now = 50\<rparr>"

text \<open>Library calls of the start-up for the examples.\<close>

definition sample_lib :: startup_env where
  "sample_lib =
     \<lparr>privateKeyToAccount = (\<lambda>k. Inr ''0xabc''),
      parse_BigInt = (\<lambda>s. if s = ''1000000'' then Inr 1000000 else Inl (Error ''Cannot convert to a BigInt'')),
      wrapFetchWithPayment =
        (\<lambda>address ch ceiling url opts.
           Inr (sample_response
                  [''x-payment-response'' \<mapsto> ''eyJhbW91bnQiOjUwMDAwMCwibmV0d29yayI6ImV0aGVyZXVtIn0=''])),
      connect = Inr (),
      inspect = message\<rparr>"

section \<open>Properties\<close>

subsection \<open>Helper facts\<close>

lemma or_str_cases:
  "or_str a b = (case a of None \<Rightarrow> b | Some v \<Rightarrow> if v = [] then b else Some v)"
  by (simp add: or_str_def truthy_str_def split: option.splits)

lemma fetch_try_throw:
  assumes "x402Fetch st (arg_url args) (fetchOptions args) = Inl e"
  shows "snd (x402_fetch_try rt st args) = Inl e"
  using assms by (simp add: x402_fetch_try_def Let_def)

lemma fetch_try_content_throw:
  assumes "x402Fetch st (arg_url args) (fetchOptions args) = Inr r"
    and "read_content rt r (or_default (resp_headers r ''content-type'') []) = Inl e"
  shows "snd (x402_fetch_try rt st args) = Inl e"
  using assms by (simp add: x402_fetch_try_def Let_def)

lemma fetch_try_success:
  assumes "x402Fetch st (arg_url args) (fetchOptions args) = Inr r"
    and "read_content rt r (or_default (resp_headers r ''content-type'') []) = Inr c"
  shows "snd (x402_fetch_try rt st args) =
           Inr \<lparr>result_text = Success
                  \<lparr>status = resp_status r, statusText = resp_statusText r,
                   paymentMade = truthy_str (actualPaymentResponse r),
                   payment = snd (settlement rt (cfg_chain st) (actualPaymentResponse r)),
                   content = c\<rparr>,
                isError = False\<rparr>"
  using assms by (simp add: x402_fetch_try_def Let_def split: prod.splits)

lemma fetch_try_success_log:
  assumes "x402Fetch st (arg_url args) (fetchOptions args) = Inr r"
    and "read_content rt r (or_default (resp_headers r ''content-type'') []) = Inr c"
  shows "set (fst (settlement rt (cfg_chain st) (actualPaymentResponse r)))
           \<subseteq> set (fst (x402_fetch_try rt st args))"
  using assms by (auto simp add: x402_fetch_try_def Let_def split: prod.splits)

lemma fetch_try_outcome:
  "(\<exists>e. snd (x402_fetch_try rt st args) = Inl e)
   \<or> (\<exists>out. snd (x402_fetch_try rt st args) = Inr \<lparr>result_text = Success out, isError = False\<rparr>)"
proof (cases "x402Fetch st (arg_url args) (fetchOptions args)")
  case (Inl e)
  then show ?thesis
    using fetch_try_throw by blast
next
  case (Inr r)
  show ?thesis
  proof (cases "read_content rt r (or_default (resp_headers r ''content-type'') [])")
    case (Inl e)
    then show ?thesis
      using fetch_try_content_throw [OF Inr] by blast
  next
    case c: (Inr c)
    show ?thesis
      using fetch_try_success [OF Inr c] by blast
  qed
qed

lemma x402_fetch_snd:
  "snd (x402_fetch rt st args) =
     (case snd (x402_fetch_try rt st args) of
        Inr result \<Rightarrow> result
      | Inl error \<Rightarrow> \<lparr>result_text = Failure (message error), isError = True\<rparr>)"
  by (simp add: x402_fetch_def split: prod.splits sum.splits)

lemma x402_fetch_fst: "fst (x402_fetch rt st args) = fst (x402_fetch_try rt st args)"
  by (simp add: x402_fetch_def split: prod.splits sum.splits)

lemma call_tool_snd:
  "snd (call_tool rt st ''x402_fetch'' (Some args)) = Inr (snd (x402_fetch rt st args))"
  by (simp add: call_tool_def split: prod.splits)

lemma call_tool_fst:
  "fst (call_tool rt st ''x402_fetch'' (Some args)) = fst (x402_fetch rt st args)"
  by (simp add: call_tool_def split: prod.splits)

lemma decode_fails:
  assumes "atob rt v = Inl e \<or> (atob rt v = Inr b \<and> json_parse rt b = Inl e)"
  shows "decode_settlement rt ch v = Inl e"
  using assms by (auto simp add: decode_settlement_def)

lemma paymentInfo_network:
  "paymentInfo rt ch decoded = Inr p \<Longrightarrow> network p = chain_name ch"
  by (auto simp add: paymentInfo_def split: sum.splits)

lemma decode_settlement_network:
  "decode_settlement rt ch v = Inr p \<Longrightarrow> network p = chain_name ch"
  by (auto simp add: decode_settlement_def paymentInfo_network split: sum.splits)

lemma settlement_network:
  "snd (settlement rt ch actual) = Some p \<Longrightarrow> network p = chain_name ch"
  by (auto simp add: settlement_def Let_def decode_settlement_network
      split: option.splits if_splits sum.splits prod.splits)


text \<open>
  A receipt whose amount does not convert to a number: the exception is caught by the
  inner \<^verbatim>\<open>catch\<close>, the raw header is logged and \<^verbatim>\<open>paymentInfo\<close> stays null.
\<close>

lemma amount_conversion_throws:
  assumes "v \<noteq> []" and "atob rt v = Inr b" and "json_parse rt b = Inr (JObj kvs)"
    and "map_of kvs ''amount'' = Some a" and "truthy a" and "Number rt a = Inl e"
  shows "settlement rt ch (Some v) = ([''[x402-fetch] Payment response (raw): '' @ v], None)"
  using assms
  by (simp add: settlement_def decode_settlement_def paymentInfo_def amountUsdc_def Let_def)

text \<open>
  A receipt whose transaction hash does not convert to a string: the exception comes
  after the assignment of \<^verbatim>\<open>paymentInfo\<close>, so the raw header is logged and the payment
  information is kept.
\<close>

lemma hash_conversion_throws:
  assumes "v \<noteq> []" and "decode_settlement rt ch v = Inr p"
    and "truthy (txHash p)" and "to_string rt (txHash p) = Inl e"
  shows "settlement rt ch (Some v)
           = ([''[x402-fetch] '' @ check_mark @ '' PAYMENT MADE!'',
               ''[x402-fetch] Payment response (raw): '' @ v], Some p)"
  using assms
  by (simp add: settlement_def payment_log_def or_NA_def Let_def)

lemma actualPaymentResponse_cases:
  "actualPaymentResponse r =
     (case resp_headers r ''x-payment-response'' of
        None \<Rightarrow> resp_headers r ''payment-response''
      | Some v \<Rightarrow> if v = [] then resp_headers r ''payment-response'' else Some v)"
  by (simp add: actualPaymentResponse_def Let_def or_str_cases)

lemma body_attached_iff:
  "fo_body (fetchOptions args) \<noteq> None \<longleftrightarrow>
     truthy_str (arg_body args) \<and> method_of args \<in> {''POST'', ''PUT'', ''PATCH''}"
  by (auto simp add: fetchOptions_def Let_def truthy_str_def split: option.splits)

lemma startup_chain:
  assumes "startup lib env = Serving st logged"
  shows "cfg_chain st = (if env ''NETWORK'' = Some ''base'' then base else baseSepolia)"
  using assms
  by (auto simp add: startup_def start_server_def Let_def or_default_def
      split: option.splits if_splits sum.splits)

lemma fetch_payment_network:
  assumes "snd (x402_fetch rt st args) = \<lparr>result_text = Success out, isError = err\<rparr>"
    and "payment out = Some p"
  shows "network p = chain_name (cfg_chain st)"
proof (cases "x402Fetch st (arg_url args) (fetchOptions args)")
  case (Inl e)
  then show ?thesis
    using assms(1) fetch_try_throw [OF Inl, of rt] by (simp add: x402_fetch_snd)
next
  case (Inr r)
  show ?thesis
  proof (cases "read_content rt r (or_default (resp_headers r ''content-type'') [])")
    case (Inl e)
    then show ?thesis
      using assms(1) fetch_try_content_throw [OF Inr Inl] by (simp add: x402_fetch_snd)
  next
    case c: (Inr c)
    have "payment out = snd (settlement rt (cfg_chain st) (actualPaymentResponse r))"
      using assms(1) fetch_try_success [OF Inr c] by (auto simp add: x402_fetch_snd)
    then show ?thesis
      using assms(2) settlement_network by metis
  qed
qed

text \<open>The amount 500000 of the specification's scenario, evaluated.\<close>

lemma floor_rat_numeral_div [simp]:
  "\<lfloor>(numeral a :: rat) / numeral b\<rfloor> = numeral a div numeral b"
  using floor_divide_of_int_eq [of "numeral a" "numeral b", where ?'a = rat] by simp

lemma show_nat_500000: "show_nat 500000 = ''500000''"
  by (simp add: show_nat.simps digit_char_def)

lemma round_half_up_500000: "round_half_up 500000 = 500000"
  by (simp add: round_half_up_def)

lemma div_million_500000: "div_million (Fin 500000) = Fin (1 / 2)"
  by code_simp

lemma fixed_digits_500000: "fixed_digits 500000 = ''0.500000''"
  by (simp add: fixed_digits_def show_nat_500000)

lemma toFixed6_half: "toFixed6 rt (Fin (1 / 2)) = ''0.500000''"
  by (simp add: toFixed6_def round_half_up_500000 fixed_digits_500000)

lemma amountUsdc_500000: "amountUsdc rt (Some (JNum (Fin 500000))) = Inr (Some ''0.500000'')"
  by (simp add: amountUsdc_def Number_def div_million_500000 toFixed6_half del: div_million.simps)

lemma retry_run:
  "authorizations (retry_with_payment env url opts auth) = [auth]
   \<and> requests (retry_with_payment env url opts auth) = [(url, opts), (url, attach_payment env opts auth)]"
  by (simp add: retry_with_payment_def Let_def split: sum.splits)

lemma retry_double_challenge:
  assumes "transport env 1 url (attach_payment env opts auth) = Inr r2" and "resp_status r2 = 402"
  shows "outcome (retry_with_payment env url opts auth) = Inl (Error ''DoublePaymentChallenge'')"
  using assms by (simp add: retry_with_payment_def Let_def decodeChallenge_def split: option.splits)

lemma client_run_cases:
  "(authorizations (challenge_retry_client env url opts) = []
      \<and> requests (challenge_retry_client env url opts) = [(url, opts)])
   \<or> (\<exists>auth. challenge_retry_client env url opts = retry_with_payment env url opts auth)"
  by (auto simp add: challenge_retry_client_def Let_def
      split: sum.splits challenge.splits decision.splits)

text \<open>The digits of \<open>toFixed\<close> and the rendering with six decimal places.\<close>

lemma show_nat_small: "n < 10 \<Longrightarrow> show_nat n = [digit_char n]"
  by (simp add: show_nat.simps)

lemma show_nat_step: "10 \<le> n \<Longrightarrow> show_nat n = show_nat (n div 10) @ [digit_char (n mod 10)]"
  by (subst show_nat.simps) simp

lemma length_low_digits [simp]: "length (low_digits j b) = j"
  by (induction j arbitrary: b) auto

lemma low_digits_zero: "low_digits j 0 = replicate j (digit_char 0)"
  by (induction j) (auto simp add: replicate_append_same)

lemma show_nat_split:
  assumes "0 < a" and "b < 10 ^ j"
  shows "show_nat (a * 10 ^ j + b) = show_nat a @ low_digits j b"
  using assms
proof (induction j arbitrary: b)
  case 0
  then show ?case by simp
next
  case (Suc j)
  let ?n = "a * 10 ^ Suc j + b"
  have big: "10 \<le> ?n"
    using Suc.prems(1) by (simp add: Suc_leI trans_le_add1)
  have d: "?n div 10 = a * 10 ^ j + b div 10"
    by simp
  have "?n = 10 * (a * 10 ^ j) + b"
    by simp
  then have m: "?n mod 10 = b mod 10"
    by (simp only: mod_mult_self4)
  have "b div 10 < 10 ^ j"
    using Suc.prems(2) by (simp add: less_mult_imp_div_less mult.commute)
  then have "show_nat (a * 10 ^ j + b div 10) = show_nat a @ low_digits j (b div 10)"
    using Suc.IH Suc.prems(1) by blast
  then show ?case
    using show_nat_step [OF big] d m by simp
qed

lemma low_digits_pad:
  assumes "b < 10 ^ j" and "0 < j"
  shows "low_digits j b = replicate (j - length (show_nat b)) (CHR ''0'') @ show_nat b
         \<and> length (show_nat b) \<le> j"
  using assms
proof (induction j arbitrary: b)
  case 0
  then show ?case by simp
next
  case (Suc j)
  show ?case
  proof (cases "b < 10")
    case True
    then show ?thesis
      by (simp add: show_nat_small low_digits_zero digit_char_def)
  next
    case False
    then have j: "0 < j"
      using Suc.prems(1) by (cases j) auto
    have "b div 10 < 10 ^ j"
      using Suc.prems(1) by (simp add: less_mult_imp_div_less mult.commute)
    then have ih: "low_digits j (b div 10)
        = replicate (j - length (show_nat (b div 10))) (CHR ''0'') @ show_nat (b div 10)"
      and len: "length (show_nat (b div 10)) \<le> j"
      using Suc.IH j by blast+
    have s: "show_nat b = show_nat (b div 10) @ [digit_char (b mod 10)]"
      using False by (simp add: show_nat_step)
    show ?thesis
      using ih len by (simp add: s)
  qed
qed

lemma fixed_digits_split:
  "fixed_digits u = show_nat (u div 10 ^ 6) @ ''.'' @ pad6 (u mod 10 ^ 6)"
proof (cases "u < 10 ^ 6")
  case True
  have len: "length (show_nat u) \<le> 6"
    using low_digits_pad [of u 6] True by simp
  have pos: "0 < length (show_nat u)"
    by (subst show_nat.simps) simp
  have r: "replicate (7 - length (show_nat u)) (CHR ''0'')
      = CHR ''0'' # replicate (6 - length (show_nat u)) (CHR ''0'')"
    using len by (simp add: Suc_diff_le flip: replicate_Suc)
  show ?thesis
    using True len pos
    by (simp add: fixed_digits_def Let_def pad6_def r show_nat_small digit_char_def)
next
  case False
  define a where "a = u div 10 ^ 6"
  define b where "b = u mod 10 ^ 6"
  have a: "0 < a"
    using False by (simp add: a_def div_greater_zero_iff)
  have b: "b < 10 ^ 6"
    by (simp add: b_def)
  have u: "u = a * 10 ^ 6 + b"
    by (simp add: a_def b_def)
  have m: "show_nat u = show_nat a @ low_digits 6 b"
    unfolding u using show_nat_split [OF a b] .
  have p: "low_digits 6 b = pad6 b"
    using low_digits_pad [OF b] by (simp add: pad6_def)
  have l: "length (pad6 b) = 6"
    using p length_low_digits [of 6 b] by simp
  have pos: "0 < length (show_nat a)"
    by (subst show_nat.simps) simp
  have ab: "u div 1000000 = a" "u mod 1000000 = b"
    by (simp_all add: a_def b_def)
  show ?thesis
    using l pos by (simp add: fixed_digits_def Let_def m p ab)
qed

lemma toFixed6_six_decimals:
  assumes "\<bar>x\<bar> < 10 ^ 21"
  shows "toFixed6 rt (Fin x) = six_decimals x"
  using assms by (simp add: toFixed6_def six_decimals_def Let_def fixed_digits_split)

lemma toFixed6_NegZero: "toFixed6 rt NegZero = six_decimals 0"
  by (simp add: toFixed6_def six_decimals_def Let_def fixed_digits_split round_half_up_def)

lemma six_decimals_nonempty: "six_decimals x \<noteq> []"
  by (simp add: six_decimals_def Let_def)


lemma is_digit_digit_char: "d < 10 \<Longrightarrow> is_digit (digit_char d)"
  unfolding is_digit_def digit_char_def by (rule nth_mem) simp

lemma show_nat_digits: "list_all is_digit (show_nat n)"
proof (induction n rule: show_nat.induct)
  case (1 n)
  show ?case
  proof (cases "n < 10")
    case True
    then show ?thesis by (simp add: show_nat_small is_digit_digit_char)
  next
    case False
    then show ?thesis
      using 1 by (simp add: show_nat_step is_digit_digit_char)
  qed
qed

lemma show_nat_nonempty: "show_nat n \<noteq> []"
  by (subst show_nat.simps) simp

lemma pad6_digits:
  assumes "b < 10 ^ 6"
  shows "length (pad6 b) = 6" and "list_all is_digit (pad6 b)"
proof -
  have "length (show_nat b) \<le> 6"
    using low_digits_pad [OF assms] by simp
  then show "length (pad6 b) = 6"
    by (simp add: pad6_def)
  have z: "list_all is_digit (replicate k (CHR ''0''))" for k
    by (induction k) (simp_all add: is_digit_def)
  show "list_all is_digit (pad6 b)"
    by (simp add: pad6_def show_nat_digits z)
qed

lemma has_six_decimals_unsigned:
  assumes "A \<noteq> []" and "list_all is_digit A" and "length P = 6" and "list_all is_digit P"
  shows "has_six_decimals (A @ ''.'' @ P)" and "has_six_decimals (''-'' @ A @ ''.'' @ P)"
proof -
  define T where "T = A @ ''.'' @ P"
  have len: "length T = length A + 7"
    using assms(3) by (simp add: T_def)
  have nth: "T ! length A = CHR ''.''"
    by (simp add: T_def nth_append)
  have tk: "take (length A) T = A"
    by (simp add: T_def)
  have dr: "drop (Suc (length A)) T = P"
    by (simp add: T_def)
  have t1: "take (Suc 0) T \<noteq> ''-''"
    using assms(1,2) by (cases A) (auto simp add: T_def is_digit_def)
  have "has_six_decimals T"
    unfolding has_six_decimals_def Let_def using t1 assms(1,2,4)
    by (simp add: len nth tk dr Suc_le_eq)
  then show "has_six_decimals (A @ ''.'' @ P)"
    by (simp add: T_def)
  have "has_six_decimals (CHR ''-'' # T)"
    unfolding has_six_decimals_def Let_def using assms(1,2,4)
    by (simp add: len nth tk dr Suc_le_eq)
  then show "has_six_decimals (''-'' @ A @ ''.'' @ P)"
    by (simp add: T_def)
qed

lemma has_six_decimals_six_decimals: "has_six_decimals (six_decimals x)"
proof -
  define u where "u = round_half_up (\<bar>x\<bar> * 10 ^ 6)"
  define A where "A = show_nat (u div 10 ^ 6)"
  define P where "P = pad6 (u mod 10 ^ 6)"
  have b: "u mod 10 ^ 6 < 10 ^ 6"
    by simp
  have A: "A \<noteq> []" "list_all is_digit A"
    by (simp_all add: A_def show_nat_nonempty show_nat_digits)
  have P: "length P = 6" "list_all is_digit P"
    using pad6_digits [OF b] by (simp_all add: P_def)
  have s: "six_decimals x = (if x < 0 then ''-'' @ A @ ''.'' @ P else A @ ''.'' @ P)"
    by (simp add: six_decimals_def Let_def u_def A_def P_def)
  show ?thesis
  proof (cases "x < 0")
    case True
    then show ?thesis
      using has_six_decimals_unsigned(2) [OF A P] by (simp only: s if_True)
  next
    case False
    then show ?thesis
      using has_six_decimals_unsigned(1) [OF A P] by (simp only: s if_False)
  qed
qed

lemma amountUsdc_finite:
  assumes "n \<noteq> 0" and "finite_value (div_million (Fin n)) = Some x" and "\<bar>x\<bar> < 10 ^ 21"
  shows "amountUsdc rt (Some (JNum (Fin n))) = Inr (Some (six_decimals x))"
proof -
  have "toFixed6 rt (div_million (Fin n)) = six_decimals x"
    using assms(2,3)
    by (cases "div_million (Fin n)")
      (simp_all add: finite_value_def toFixed6_six_decimals toFixed6_NegZero del: div_million.simps)
  then show ?thesis
    using assms(1) by (simp add: amountUsdc_def Number_def del: div_million.simps)
qed

text \<open>The error of the rounding to a double, and the division of an integer amount.\<close>

lemma round_half_even_error: "\<bar>of_int (round_half_even y) - y\<bar> \<le> 1 / 2"
proof -
  define r where "r = y - of_int \<lfloor>y\<rfloor>"
  have r: "0 \<le> r" "r < 1"
    unfolding r_def by linarith+
  have y: "y = of_int \<lfloor>y\<rfloor> + r"
    by (simp add: r_def)
  consider (down) "round_half_even y = \<lfloor>y\<rfloor>" "r \<le> 1 / 2"
    | (up) "round_half_even y = \<lfloor>y\<rfloor> + 1" "1 / 2 \<le> r"
    unfolding round_half_even_def Let_def r_def [symmetric]
    by (cases "r < 1 / 2"; cases "1 / 2 < r"; cases "even \<lfloor>y\<rfloor>") simp_all
  then show ?thesis
  proof cases
    case down
    have "of_int (round_half_even y) - y = - r"
      by (subst (2) y) (simp add: down(1))
    then show ?thesis
      using r down(2) by simp
  next
    case up
    have "of_int (round_half_even y) - y = 1 - r"
      by (subst (2) y) (simp add: up(1))
    then show ?thesis
      using r up(2) by simp
  qed
qed

lemma floor_log2_le:
  assumes "0 < a"
  shows "2 powi (floor_log2 a) \<le> a"
proof -
  obtain p q where pq: "quotient_of a = (p, q)"
    by (cases "quotient_of a")
  have q: "0 < q"
    using pq by (rule quotient_of_denom_pos)
  have a: "a = of_int p / of_int q"
    using pq by (rule quotient_of_div)
  have p: "0 < p"
    using assms q a by (simp add: zero_less_divide_iff)
  define d where "d = bitlen p - bitlen q"
  show ?thesis
  proof (cases "2 powi d \<le> a")
    case True
    then show ?thesis
      by (simp add: floor_log2_def pq d_def Let_def)
  next
    case False
    have bp: "1 \<le> bitlen p" and bq: "0 \<le> bitlen q"
      using p bitlen_eq_zero_iff [of p] bitlen_nonneg [of p] bitlen_nonneg [of q] by linarith+
    have lo: "(2::rat) ^ nat (bitlen p - 1) \<le> of_int p"
    proof -
      have "2 ^ nat (bitlen p - 1) \<le> p"
        using bitlen_bounds [OF p] by simp
      then have "(of_int (2 ^ nat (bitlen p - 1)) :: rat) \<le> of_int p"
        by (simp only: of_int_le_iff)
      then show ?thesis by simp
    qed
    have hi: "of_int q \<le> (2::rat) ^ nat (bitlen q)"
    proof -
      have "q \<le> 2 ^ nat (bitlen q)"
        using bitlen_bounds [OF q] by simp
      then have "(of_int q :: rat) \<le> of_int (2 ^ nat (bitlen q))"
        by (simp only: of_int_le_iff)
      then show ?thesis by simp
    qed
    have "d - 1 = (bitlen p - 1) - bitlen q"
      by (simp add: d_def)
    then have "(2::rat) powi (d - 1) = 2 powi (bitlen p - 1) / 2 powi (bitlen q)"
      by (simp only: power_int_diff [of "2::rat" "bitlen p - 1" "bitlen q", simplified])
    also have "\<dots> = 2 ^ nat (bitlen p - 1) / 2 ^ nat (bitlen q)"
      using bp bq by (simp add: power_int_def)
    also have "\<dots> \<le> of_int p / of_int q"
      using lo hi p q by (intro frac_le) simp_all
    finally have "(2::rat) powi (d - 1) \<le> a"
      by (simp add: a)
    then show ?thesis
      using False by (simp add: floor_log2_def pq d_def Let_def)
  qed
qed


lemma round_double_near:
  assumes "0 < a" and "a * 2 ^ 20 < 2 ^ 72" and "1 \<le> a * 2 ^ 20"
  shows "\<exists>v. round_double a = Fin v \<and> round_double (- a) = Fin (- v) \<and> \<bar>v - a\<bar> \<le> a / 2 ^ 53"
proof -
  define e where "e = max (floor_log2 a) (- 1022)"
  define ulp :: rat where "ulp = 2 powi (e - 52)"
  define m where "m = round_half_even (a / ulp)"
  define v where "v = of_int m * ulp"
  have ulp_pos: "0 < ulp"
    by (simp add: ulp_def)
  have small: "(2::rat) powi (- 1022) \<le> a"
  proof -
    have "(2::rat) powi (- 1022) \<le> 2 powi (- 20)"
      by (intro power_int_increasing) simp_all
    also have "\<dots> = 1 / 2 ^ 20"
      by (simp add: power_int_minus_divide)
    also have "\<dots> \<le> a"
      using assms(3) by (simp add: field_simps)
    finally show ?thesis .
  qed
  have "2 powi e \<le> a"
    using floor_log2_le [OF assms(1)] small by (simp add: e_def max_def)
  moreover have "ulp = 2 powi e / 2 ^ 52"
    using power_int_diff [of "2::rat" e 52] by (simp add: ulp_def)
  ultimately have ulp_le: "ulp \<le> a / 2 ^ 52"
    by (simp add: divide_right_mono)
  have "\<bar>of_int m - a / ulp\<bar> \<le> 1 / 2"
    unfolding m_def by (rule round_half_even_error)
  then have "\<bar>of_int m - a / ulp\<bar> * ulp \<le> 1 / 2 * ulp"
    using ulp_pos by (intro mult_right_mono) simp_all
  moreover have "\<bar>of_int m - a / ulp\<bar> * ulp = \<bar>v - a\<bar>"
  proof -
    have "(of_int m - a / ulp) * ulp = v - a"
      using ulp_pos by (simp add: v_def left_diff_distrib)
    then have "\<bar>v - a\<bar> = \<bar>of_int m - a / ulp\<bar> * \<bar>ulp\<bar>"
      by (simp only: abs_mult [symmetric])
    then show ?thesis
      using ulp_pos by simp
  qed
  ultimately have "\<bar>v - a\<bar> \<le> ulp / 2"
    by simp
  then have err: "\<bar>v - a\<bar> \<le> a / 2 ^ 53"
    using ulp_le by simp
  have v_pos: "0 < v"
  proof -
    have "a / 2 ^ 53 < a"
      using assms(1) by (simp add: field_simps)
    then show ?thesis
      using err by linarith
  qed
  then have m0: "m \<noteq> 0"
    by (auto simp add: v_def)
  have v_lt: "v < 2 ^ 1024"
  proof -
    have "v \<le> a + a / 2 ^ 53"
      using err by linarith
    also have "\<dots> \<le> 2 * a"
      using assms(1) by (simp add: field_simps)
    also have "\<dots> < 2 * 2 ^ 52"
      using assms(2) by simp
    also have "\<dots> \<le> (2::rat) ^ 1024"
      by simp
    finally show ?thesis .
  qed
  have "round_double a = Fin v"
    using assms(1) m0 v_lt
    by (simp add: round_double_def Let_def e_def [symmetric] ulp_def [symmetric] m_def [symmetric]
        v_def [symmetric])
  moreover have "round_double (- a) = Fin (- v)"
    using assms(1) m0 v_lt
    by (simp add: round_double_def Let_def e_def [symmetric] ulp_def [symmetric] m_def [symmetric]
        v_def [symmetric])
  ultimately show ?thesis
    using err by blast
qed


lemma round_half_up_near:
  assumes "\<bar>y - of_nat k\<bar> < 1 / 2"
  shows "round_half_up y = k"
proof -
  have b: "of_nat k - 1 / 2 < y" "y < of_nat k + 1 / 2"
    using assms by linarith+
  have "\<lfloor>y + 1 / 2\<rfloor> = int k"
  proof (rule floor_unique)
    show "of_int (int k) \<le> y + 1 / 2"
      using b(1) by simp
    show "y + 1 / 2 < of_int (int k) + 1"
      using b(2) by simp
  qed
  then show ?thesis
    by (simp add: round_half_up_def)
qed

lemma div_million_integer:
  fixes n :: int
  assumes "n \<noteq> 0" and "\<bar>n\<bar> < 2 ^ 52"
  shows "\<exists>x. div_million (Fin (of_int n)) = Fin x \<and> \<bar>x\<bar> < 10 ^ 21 \<and> (x < 0 \<longleftrightarrow> n < 0)
             \<and> round_half_up (\<bar>x\<bar> * 10 ^ 6) = nat \<bar>n\<bar>"
proof -
  define a :: rat where "a = of_int \<bar>n\<bar> / 10 ^ 6"
  have n1: "(1::rat) \<le> of_int \<bar>n\<bar>"
  proof -
    have "1 \<le> \<bar>n\<bar>"
      using assms(1) by linarith
    then have "(of_int 1 :: rat) \<le> of_int \<bar>n\<bar>"
      by (simp only: of_int_le_iff)
    then show ?thesis by simp
  qed
  have n2: "(of_int \<bar>n\<bar> :: rat) < 2 ^ 52"
  proof -
    have "(of_int \<bar>n\<bar> :: rat) < of_int (2 ^ 52)"
      using assms(2) by (simp only: of_int_less_iff)
    then show ?thesis by simp
  qed
  have a_pos: "0 < a"
    using n1 by (simp add: a_def)
  have lo: "1 \<le> a * 2 ^ 20"
    using n1 by (simp add: a_def)
  have hi: "a * 2 ^ 20 < 2 ^ 72"
    using n2 by (simp add: a_def)
  obtain v where v: "round_double a = Fin v" "round_double (- a) = Fin (- v)"
    and err: "\<bar>v - a\<bar> \<le> a / 2 ^ 53"
    using round_double_near [OF a_pos hi lo] by blast
  have v_pos: "0 < v"
  proof -
    have "a / 2 ^ 53 < a"
      using a_pos by (simp add: field_simps)
    then show ?thesis
      using err by linarith
  qed
  have close: "\<bar>v * 10 ^ 6 - of_nat (nat \<bar>n\<bar>)\<bar> < 1 / 2"
  proof -
    have "v * 10 ^ 6 - of_nat (nat \<bar>n\<bar>) = (v - a) * 10 ^ 6"
      by (simp add: a_def left_diff_distrib)
    then have "\<bar>v * 10 ^ 6 - of_nat (nat \<bar>n\<bar>)\<bar> = \<bar>(v - a) * 10 ^ 6\<bar>"
      by (simp only:)
    also have "\<dots> = \<bar>v - a\<bar> * 10 ^ 6"
      by (simp only: abs_mult) simp
    also have "\<bar>v - a\<bar> * 10 ^ 6 \<le> a / 2 ^ 53 * 10 ^ 6"
      using err by (intro mult_right_mono) simp_all
    also have "\<dots> = of_int \<bar>n\<bar> / 2 ^ 53"
      by (simp add: a_def)
    also have "\<dots> < 1 / 2"
      using n2 by (simp add: field_simps)
    finally show ?thesis .
  qed
  have r: "round_half_up (v * 10 ^ 6) = nat \<bar>n\<bar>"
    using close by (rule round_half_up_near)
  have small: "v < 10 ^ 21"
  proof -
    have "v \<le> a + a / 2 ^ 53"
      using err by linarith
    also have "\<dots> \<le> 2 * a"
      using a_pos by (simp add: field_simps)
    also have "\<dots> < 2 * 2 ^ 52"
      using hi by simp
    also have "\<dots> \<le> (10::rat) ^ 21"
      by simp
    finally show ?thesis .
  qed
  show ?thesis
  proof (cases "0 < n")
    case True
    then have "of_int n / 1000000 = a"
      by (simp add: a_def)
    then have "div_million (Fin (of_int n)) = Fin v"
      using v(1) by simp
    then show ?thesis
      using True v_pos small r by (intro exI [of _ v]) simp
  next
    case False
    then have neg: "n < 0"
      using assms(1) by simp
    then have "of_int n / 1000000 = - a"
      by (simp add: a_def)
    then have "div_million (Fin (of_int n)) = Fin (- v)"
      using v(2) by simp
    then show ?thesis
      using neg v_pos small r by (intro exI [of _ "- v"]) simp
  qed
qed


lemma six_decimals_integer:
  fixes k :: int
  assumes "k \<noteq> 0" and "\<bar>k\<bar> < 2 ^ 52"
    and "finite_value (div_million (Fin (of_int k))) = Some x"
  shows "six_decimals x = six_decimals (of_int k / 1000000)"
proof -
  obtain x' where x': "div_million (Fin (of_int k)) = Fin x'" "x' < 0 \<longleftrightarrow> k < 0"
    "round_half_up (\<bar>x'\<bar> * 10 ^ 6) = nat \<bar>k\<bar>"
    using div_million_integer [OF assms(1,2)] by blast
  have x: "x = x'"
    using assms(3) x'(1) by (simp add: finite_value_def del: div_million.simps)
  have "\<bar>rat_of_int k / 1000000\<bar> * 10 ^ 6 = of_nat (nat \<bar>k\<bar>)"
    by simp
  then have "\<bar>\<bar>rat_of_int k / 1000000\<bar> * 10 ^ 6 - of_nat (nat \<bar>k\<bar>)\<bar> < 1 / 2"
    by (simp only: diff_self abs_zero)
  then have e: "round_half_up (\<bar>rat_of_int k / 1000000\<bar> * 10 ^ 6) = nat \<bar>k\<bar>"
    by (rule round_half_up_near)
  have s: "rat_of_int k / 1000000 < 0 \<longleftrightarrow> x' < 0"
    using x'(2) by (simp add: divide_less_0_iff)
  have l: "six_decimals x' = (if x' < 0 then ''-'' else []) @ show_nat (nat \<bar>k\<bar> div 10 ^ 6)
      @ ''.'' @ pad6 (nat \<bar>k\<bar> mod 10 ^ 6)"
    by (simp only: six_decimals_def Let_def x'(3))
  have r: "six_decimals (rat_of_int k / 1000000)
      = (if rat_of_int k / 1000000 < 0 then ''-'' else []) @ show_nat (nat \<bar>k\<bar> div 10 ^ 6)
      @ ''.'' @ pad6 (nat \<bar>k\<bar> mod 10 ^ 6)"
    by (simp only: six_decimals_def Let_def e)
  show ?thesis
    by (simp only: x l r s)
qed

subsection \<open>The settlement header lookup\<close>

text \<open>
  The lookup as claim C1 states it uses the fallback only when the primary header is
  absent. It fails on a response whose primary header is present with an empty value:
  the value of the fallback is used.
\<close>

theorem lookup_fallback_counterexample:
  "resp_headers (sample_response [''x-payment-response'' \<mapsto> [], ''payment-response'' \<mapsto> ''e30=''])
     ''x-payment-response'' = Some []
   \<and> actualPaymentResponse (sample_response [''x-payment-response'' \<mapsto> [], ''payment-response'' \<mapsto> ''e30=''])
       = Some ''e30=''"
  by (simp add: actualPaymentResponse_def sample_response_def or_str_def truthy_str_def)

text \<open>
  Claim C1, amended: the settlement header lookup checks the primary name
  \<^verbatim>\<open>x-payment-response\<close> first and the fallback name \<^verbatim>\<open>payment-response\<close> second; it
  uses the value of the fallback only when the primary header is absent or empty, and
  the result is the one value or the other, never a combination of the two.
\<close>

theorem settlement_lookup_order:
  "actualPaymentResponse r =
     (case resp_headers r ''x-payment-response'' of
        None \<Rightarrow> resp_headers r ''payment-response''
      | Some v \<Rightarrow> if v = [] then resp_headers r ''payment-response'' else Some v)"
  by (rule actualPaymentResponse_cases)

subsection \<open>A settlement header that does not decode\<close>

text \<open>
  Claim C2 speaks of every settlement header whose content cannot be parsed. It fails
  on a response whose settlement header is present with an empty value: the base64
  decoding of the empty string gives the empty string, which does not parse as JSON,
  yet nothing is decoded and no failure is logged; the log says that no payment was
  required or made.
\<close>

theorem empty_settlement_header_counterexample:
  "resp_headers (sample_response [''x-payment-response'' \<mapsto> []]) ''x-payment-response'' = Some []
   \<and> atob sample_runtime [] = Inr []
   \<and> json_parse sample_runtime [] = Inl (Error ''Unexpected end of JSON input'')
   \<and> call_tool sample_runtime
        (sample_state (Inr (sample_response [''x-payment-response'' \<mapsto> []])))
        ''x402_fetch'' (Some sample_args)
     = ([separator,
         ''[x402-fetch] Fetching: GET https://example.org/'',
         ''[x402-fetch] Wallet: 0xabc'',
         ''[x402-fetch] Response status: 200 OK'',
         ''[x402-fetch] Content-Type: '',
         ''[x402-fetch] '' @ info_sign @ '' No payment was required or made'',
         ''[x402-fetch] Content length: 5 chars'',
         separator],
        Inr \<lparr>result_text = Success \<lparr>status = 200, statusText = ''OK'', paymentMade = False,
                                     payment = None, content = ''hello''\<rparr>,
              isError = False\<rparr>)
   \<and> ''[x402-fetch] Payment response (raw): ''
       \<notin> set (fst (call_tool sample_runtime
                      (sample_state (Inr (sample_response [''x-payment-response'' \<mapsto> []])))
                      ''x402_fetch'' (Some sample_args)))"
  by (simp add: call_tool_def x402_fetch_def x402_fetch_try_def sample_state_def
      sample_response_def sample_args_def method_of_def read_content_def or_default_def
      actualPaymentResponse_def or_str_def truthy_str_def settlement_def sample_runtime_def
      sample_atob_def sample_json_parse_def separator_def info_sign_def show_nat.simps
      digit_char_def Let_def)

text \<open>
  Claim C2, amended: when the fetch and the reading of the content have succeeded and
  the settlement header that the lookup selects has a non-empty value that cannot be
  parsed (the base64 decoding throws, or the JSON parsing of its result throws), the
  raw header is logged and the tool call still returns a success outcome with the
  status and the content of the response, not an error outcome.
\<close>

theorem malformed_settlement_not_fatal:
  assumes "x402Fetch st (arg_url args) (fetchOptions args) = Inr r"
    and "read_content rt r (or_default (resp_headers r ''content-type'') []) = Inr c"
    and "actualPaymentResponse r = Some v" and "v \<noteq> []"
    and "atob rt v = Inl e \<or> (atob rt v = Inr b \<and> json_parse rt b = Inl e)"
  shows "(''[x402-fetch] Payment response (raw): '' @ v) \<in> set (fst (call_tool rt st ''x402_fetch'' (Some args)))
         \<and> (\<exists>out. snd (call_tool rt st ''x402_fetch'' (Some args)) = Inr \<lparr>result_text = Success out, isError = False\<rparr>
                  \<and> status out = resp_status r \<and> statusText out = resp_statusText r \<and> content out = c)"
proof -
  have d: "decode_settlement rt (cfg_chain st) v = Inl e"
    using assms(5) by (rule decode_fails)
  have s: "settlement rt (cfg_chain st) (Some v) = ([''[x402-fetch] Payment response (raw): '' @ v], None)"
    using d assms(4) by (simp add: settlement_def)
  have "(''[x402-fetch] Payment response (raw): '' @ v) \<in> set (fst (x402_fetch_try rt st args))"
    using fetch_try_success_log [OF assms(1) assms(2)] s assms(3) by auto
  moreover have "snd (x402_fetch rt st args) =
      \<lparr>result_text = Success \<lparr>status = resp_status r, statusText = resp_statusText r,
          paymentMade = truthy_str (actualPaymentResponse r),
          payment = snd (settlement rt (cfg_chain st) (actualPaymentResponse r)), content = c\<rparr>,
       isError = False\<rparr>"
    using fetch_try_success [OF assms(1) assms(2)] by (simp add: x402_fetch_snd)
  ultimately show ?thesis
    by (simp add: call_tool_snd call_tool_fst x402_fetch_fst)
qed

theorem malformed_settlement_not_fatal_witness:
  "(''[x402-fetch] Payment response (raw): bm90IGpzb24='')
     \<in> set (fst (call_tool sample_runtime
                  (sample_state (Inr (sample_response [''x-payment-response'' \<mapsto> ''bm90IGpzb24=''])))
                  ''x402_fetch'' (Some sample_args)))
   \<and> (\<exists>out. snd (call_tool sample_runtime
                  (sample_state (Inr (sample_response [''x-payment-response'' \<mapsto> ''bm90IGpzb24=''])))
                  ''x402_fetch'' (Some sample_args)) = Inr \<lparr>result_text = Success out, isError = False\<rparr>
            \<and> status out = 200 \<and> statusText out = ''OK'' \<and> content out = ''hello'')"
  using malformed_settlement_not_fatal [of
      "sample_state (Inr (sample_response [''x-payment-response'' \<mapsto> ''bm90IGpzb24='']))"
      sample_args "sample_response [''x-payment-response'' \<mapsto> ''bm90IGpzb24='']"
      sample_runtime "''hello''" "''bm90IGpzb24=''" "Error ''Unexpected token''" "''not json''"]
  by (simp add: sample_state_def sample_response_def sample_runtime_def sample_atob_def
      sample_json_parse_def read_content_def or_default_def actualPaymentResponse_def or_str_def
      truthy_str_def)

subsection \<open>Exceptions at the boundary of the tool\<close>

text \<open>
  Claim C3 says that no invocation of the tool lets an exception propagate. It fails on
  a call that carries no arguments: the destructuring of line 100 stands before the
  \<^verbatim>\<open>try\<close> and throws a TypeError out of the handler; nothing is logged and no
  structured outcome is returned.
\<close>

theorem missing_arguments_counterexample:
  "call_tool sample_runtime (sample_state (Inr (sample_response Map.empty))) ''x402_fetch'' None
     = ([], Inl (Error ''Cannot destructure property 'url' of 'args' as it is undefined.''))"
  by (simp add: call_tool_def destructure_error_def)

text \<open>
  Claim C3, amended: for every invocation of the tool that carries an arguments object,
  an exception thrown by the fetch, or by the reading and decoding of the content, is
  caught by the handler and returned as the structured outcome with \<open>success\<close> false
  and the message of the exception; every such call returns one of the two structured
  outcomes, and nothing is thrown to the caller.
\<close>

theorem exceptions_become_failures:
  "(x402Fetch st (arg_url args) (fetchOptions args) = Inl e
      \<or> (x402Fetch st (arg_url args) (fetchOptions args) = Inr r
          \<and> read_content rt r (or_default (resp_headers r ''content-type'') []) = Inl e)
    \<longrightarrow> snd (call_tool rt st ''x402_fetch'' (Some args))
          = Inr \<lparr>result_text = Failure (message e), isError = True\<rparr>)
   \<and> ((\<exists>out. snd (call_tool rt st ''x402_fetch'' (Some args)) = Inr \<lparr>result_text = Success out, isError = False\<rparr>)
        \<or> (\<exists>m. snd (call_tool rt st ''x402_fetch'' (Some args)) = Inr \<lparr>result_text = Failure m, isError = True\<rparr>))"
proof (intro conjI impI)
  assume "x402Fetch st (arg_url args) (fetchOptions args) = Inl e
      \<or> (x402Fetch st (arg_url args) (fetchOptions args) = Inr r
          \<and> read_content rt r (or_default (resp_headers r ''content-type'') []) = Inl e)"
  then have "snd (x402_fetch_try rt st args) = Inl e"
    using fetch_try_throw fetch_try_content_throw by blast
  then show "snd (call_tool rt st ''x402_fetch'' (Some args))
          = Inr \<lparr>result_text = Failure (message e), isError = True\<rparr>"
    by (simp add: call_tool_snd x402_fetch_snd)
next
  show "(\<exists>out. snd (call_tool rt st ''x402_fetch'' (Some args)) = Inr \<lparr>result_text = Success out, isError = False\<rparr>)
        \<or> (\<exists>m. snd (call_tool rt st ''x402_fetch'' (Some args)) = Inr \<lparr>result_text = Failure m, isError = True\<rparr>)"
    using fetch_try_outcome [of rt st args]
    by (auto simp add: call_tool_snd x402_fetch_snd)
qed

theorem exceptions_become_failures_witness:
  "snd (call_tool sample_runtime (sample_state (Inl (Error ''fetch failed''))) ''x402_fetch'' (Some sample_args))
     = Inr \<lparr>result_text = Failure ''fetch failed'', isError = True\<rparr>
   \<and> snd (call_tool sample_runtime
            (sample_state (Inr (sample_response [''content-type'' \<mapsto> ''application/json''])))
            ''x402_fetch'' (Some sample_args))
     = Inr \<lparr>result_text = Failure ''Unexpected token h in JSON'', isError = True\<rparr>"
  using exceptions_become_failures [of "sample_state (Inl (Error ''fetch failed''))" sample_args
      "Error ''fetch failed''" "sample_response Map.empty" sample_runtime]
    exceptions_become_failures [of
      "sample_state (Inr (sample_response [''content-type'' \<mapsto> ''application/json'']))" sample_args
      "Error ''Unexpected token h in JSON''"
      "sample_response [''content-type'' \<mapsto> ''application/json'']" sample_runtime]
  by (simp add: sample_state_def sample_response_def read_content_def or_default_def)

subsection \<open>A response without settlement header\<close>



subsection \<open>Start-up without the signing key\<close>

text \<open>
  Claim C5: when the environment has no \<^verbatim>\<open>PRIVATE_KEY\<close>, the process prints one
  diagnostic line and exits with code 1; it does not reach the state in which the
  tools are served.
\<close>

theorem startup_without_key:
  assumes "env ''PRIVATE_KEY'' = None"
  shows "startup lib env = Exited 1 [''PRIVATE_KEY environment variable is required'']"
  using assms by (simp add: startup_def Let_def)

theorem startup_without_key_witness:
  "startup sample_lib [''NETWORK'' \<mapsto> ''base''] =
     Exited 1 [''PRIVATE_KEY environment variable is required'']"
  using startup_without_key [of "[''NETWORK'' \<mapsto> ''base'']" sample_lib]
  by simp

subsection \<open>The body of the issued request\<close>

text \<open>
  Claim C8: when the method of the call (\<^verbatim>\<open>GET\<close> when none is given) is not
  \<^verbatim>\<open>POST\<close>, \<^verbatim>\<open>PUT\<close> or \<^verbatim>\<open>PATCH\<close>, the options of the issued request carry the method
  and the headers and no body, whatever body the call supplies.
\<close>

theorem body_only_for_three_methods:
  assumes "method_of args \<noteq> ''POST''" and "method_of args \<noteq> ''PUT''" and "method_of args \<noteq> ''PATCH''"
  shows "fetchOptions args =
           \<lparr>fo_method = method_of args, fo_headers = headers_of args, fo_body = None\<rparr>"
  using assms by (simp add: fetchOptions_def Let_def)

theorem body_only_for_three_methods_witness:
  "arg_body sample_args = Some ''data''
   \<and> fetchOptions sample_args = \<lparr>fo_method = ''GET'', fo_headers = Map.empty, fo_body = None\<rparr>"
  using body_only_for_three_methods [of sample_args]
  by (simp add: sample_args_def method_of_def headers_of_def)

subsection \<open>The network of the payment information\<close>

text \<open>
  Claim C9: whenever the outcome of a fetch has payment information, its \<open>network\<close> is
  the name of the chain that start-up has chosen from the environment variable
  \<^verbatim>\<open>NETWORK\<close>; the decoded settlement content has no part in it.
\<close>

theorem payment_network_is_configured_chain:
  assumes "startup lib env = Serving st logged"
    and "snd (call_tool rt st ''x402_fetch'' (Some args)) = Inr \<lparr>result_text = Success out, isError = err\<rparr>"
    and "payment out = Some p"
  shows "network p = chain_name (if env ''NETWORK'' = Some ''base'' then base else baseSepolia)"
  using startup_chain [OF assms(1)] fetch_payment_network [of rt st args out err p] assms(2,3)
  by (simp add: call_tool_snd)

theorem payment_network_is_configured_chain_witness:
  "startup sample_lib [''PRIVATE_KEY'' \<mapsto> ''0x01'', ''NETWORK'' \<mapsto> ''base'']
     = Serving \<lparr>cfg_NETWORK = ''base'', cfg_chain = base, account_address = ''0xabc'',
                x402Fetch = wrapFetchWithPayment sample_lib ''0xabc'' base 1000000\<rparr>
         [''[x402-fetch-mcp] Starting server...'', ''[x402-fetch-mcp] Wallet: 0xabc'',
          ''[x402-fetch-mcp] Network: Base'', ''[x402-fetch-mcp] Server running on stdio'']
   \<and> snd (call_tool sample_runtime
           \<lparr>cfg_NETWORK = ''base'', cfg_chain = base, account_address = ''0xabc'',
                x402Fetch = wrapFetchWithPayment sample_lib ''0xabc'' base 1000000\<rparr>
           ''x402_fetch'' (Some sample_args))
     = Inr \<lparr>result_text = Success \<lparr>status = 200, statusText = ''OK'', paymentMade = True,
           payment = Some \<lparr>txHash = JNull, amount = Some ''0.500000 USDC'',
                            amountRaw = JNum (Fin 500000), network = ''Base'',
                            settled = JBool False\<rparr>,
           content = ''hello''\<rparr>, isError = False\<rparr>
   \<and> get_prop (JObj [(''amount'', JNum (Fin 500000)), (''network'', JStr ''ethereum'')]) ''network''
       = Inr (Some (JStr ''ethereum''))"
  using payment_network_is_configured_chain [of sample_lib
      "[''PRIVATE_KEY'' \<mapsto> ''0x01'', ''NETWORK'' \<mapsto> ''base'']"
      "\<lparr>cfg_NETWORK = ''base'', cfg_chain = base, account_address = ''0xabc'',
                x402Fetch = wrapFetchWithPayment sample_lib ''0xabc'' base 1000000\<rparr>"
      "[''[x402-fetch-mcp] Starting server...'', ''[x402-fetch-mcp] Wallet: 0xabc'',
          ''[x402-fetch-mcp] Network: Base'', ''[x402-fetch-mcp] Server running on stdio'']"
      sample_runtime sample_args
      "\<lparr>status = 200, statusText = ''OK'', paymentMade = True,
           payment = Some \<lparr>txHash = JNull, amount = Some ''0.500000 USDC'',
                            amountRaw = JNum (Fin 500000), network = ''Base'',
                            settled = JBool False\<rparr>,
           content = ''hello''\<rparr>" False
      "\<lparr>txHash = JNull, amount = Some ''0.500000 USDC'',
                            amountRaw = JNum (Fin 500000), network = ''Base'',
                            settled = JBool False\<rparr>"]
  by (simp add: startup_def start_server_def sample_lib_def or_default_def Let_def
      call_tool_def x402_fetch_def x402_fetch_try_def sample_response_def read_content_def
      actualPaymentResponse_def or_str_def truthy_str_def settlement_def decode_settlement_def
      sample_runtime_def sample_atob_def sample_json_parse_def paymentInfo_def js_or_def
      amountUsdc_500000 payment_log_def or_NA_def)

subsection \<open>The flag \<open>paymentMade\<close>\<close>

text \<open>
  Claim C10 says that the flag is determined by the presence of the header alone. It
  fails on a response whose settlement header is present with an empty value: the
  outcome has \<open>paymentMade\<close> false.
\<close>

theorem paymentMade_presence_counterexample:
  "resp_headers (sample_response [''x-payment-response'' \<mapsto> []]) ''x-payment-response'' = Some []
   \<and> snd (call_tool sample_runtime
            (sample_state (Inr (sample_response [''x-payment-response'' \<mapsto> []])))
            ''x402_fetch'' (Some sample_args))
     = Inr \<lparr>result_text = Success \<lparr>status = 200, statusText = ''OK'', paymentMade = False,
                                payment = None, content = ''hello''\<rparr>,
         isError = False\<rparr>"
  by (simp add: call_tool_def x402_fetch_def x402_fetch_try_def sample_state_def
      sample_response_def read_content_def or_default_def actualPaymentResponse_def or_str_def
      truthy_str_def settlement_def decode_settlement_def sample_runtime_def sample_atob_def
      sample_json_parse_def Let_def)

text \<open>
  Claim C10, amended: in the outcome of a fetch whose content was read, \<open>paymentMade\<close>
  is true exactly when the settlement header the lookup selects has a non-empty value,
  whether or not the receipt decodes; when that value fails to parse, \<open>paymentMade\<close> is
  true while \<open>payment\<close> is null.
\<close>

theorem paymentMade_by_header_value:
  assumes "x402Fetch st (arg_url args) (fetchOptions args) = Inr r"
    and "read_content rt r (or_default (resp_headers r ''content-type'') []) = Inr c"
  shows "\<exists>out. snd (call_tool rt st ''x402_fetch'' (Some args)) = Inr \<lparr>result_text = Success out, isError = False\<rparr>
           \<and> paymentMade out = (\<exists>v. actualPaymentResponse r = Some v \<and> v \<noteq> [])
           \<and> (\<forall>v e b. actualPaymentResponse r = Some v \<and> v \<noteq> []
                  \<and> (atob rt v = Inl e \<or> (atob rt v = Inr b \<and> json_parse rt b = Inl e))
                \<longrightarrow> paymentMade out \<and> payment out = None)"
proof -
  let ?out = "\<lparr>status = resp_status r, statusText = resp_statusText r,
          paymentMade = truthy_str (actualPaymentResponse r),
          payment = snd (settlement rt (cfg_chain st) (actualPaymentResponse r)), content = c\<rparr>"
  have res: "snd (call_tool rt st ''x402_fetch'' (Some args)) = Inr \<lparr>result_text = Success ?out, isError = False\<rparr>"
    using fetch_try_success [OF assms(1) assms(2)] by (simp add: call_tool_snd x402_fetch_snd)
  have made: "paymentMade ?out = (\<exists>v. actualPaymentResponse r = Some v \<and> v \<noteq> [])"
    by (simp add: truthy_str_def split: option.splits)
  have none: "payment ?out = None"
    if "actualPaymentResponse r = Some v" "v \<noteq> []"
      "atob rt v = Inl e \<or> (atob rt v = Inr b \<and> json_parse rt b = Inl e)" for v e b
  proof -
    have "decode_settlement rt (cfg_chain st) v = Inl e"
      using that(3) by (rule decode_fails)
    then show ?thesis
      using that(1,2) by (simp add: settlement_def)
  qed
  show ?thesis
    using res made none by (intro exI [of _ ?out]) blast
qed

theorem paymentMade_by_header_value_witness:
  "\<exists>out. snd (call_tool sample_runtime
              (sample_state (Inr (sample_response [''x-payment-response'' \<mapsto> ''bm90IGpzb24=''])))
              ''x402_fetch'' (Some sample_args)) = Inr \<lparr>result_text = Success out, isError = False\<rparr>
         \<and> paymentMade out \<and> payment out = None"
proof -
  let ?r = "sample_response [''x-payment-response'' \<mapsto> ''bm90IGpzb24='']"
  have f: "x402Fetch (sample_state (Inr ?r)) (arg_url sample_args) (fetchOptions sample_args) = Inr ?r"
    by (simp add: sample_state_def)
  have c: "read_content sample_runtime ?r (or_default (resp_headers ?r ''content-type'') []) = Inr ''hello''"
    by (simp add: sample_response_def read_content_def or_default_def)
  have a: "actualPaymentResponse ?r = Some ''bm90IGpzb24='' \<and> ''bm90IGpzb24='' \<noteq> []
      \<and> (atob sample_runtime ''bm90IGpzb24='' = Inl (Error ''Unexpected token'')
          \<or> (atob sample_runtime ''bm90IGpzb24='' = Inr ''not json''
              \<and> json_parse sample_runtime ''not json'' = Inl (Error ''Unexpected token'')))"
    by (simp add: actualPaymentResponse_def sample_response_def or_str_def truthy_str_def
        sample_runtime_def sample_atob_def sample_json_parse_def)
  show ?thesis
    using paymentMade_by_header_value [OF f c] a by blast
qed

subsection \<open>At most one payment for a call\<close>

text \<open>
  Claim C7: a run of the client for one call signs at most one payment authorization
  and issues at most two requests, the second one only with the one authorization;
  when the answer to the paid retry is another challenge (status 402), nothing more is
  signed or sent, the client throws \<^verbatim>\<open>DoublePaymentChallenge\<close>, and the tool returns it as
  an error outcome.
\<close>

theorem at_most_one_payment:
  fixes env :: client_env and st :: module_state and args :: fetch_args
  defines "run \<equiv> challenge_retry_client env (arg_url args) (fetchOptions args)"
  shows "length (authorizations run) \<le> 1
         \<and> length (requests run) = 1 + length (authorizations run)
         \<and> (\<forall>auth r2. authorizations run = [auth]
               \<and> transport env 1 (arg_url args) (attach_payment env (fetchOptions args) auth) = Inr r2
               \<and> resp_status r2 = 402
             \<longrightarrow> outcome run = Inl (Error ''DoublePaymentChallenge'')
                 \<and> requests run = [(arg_url args, fetchOptions args),
                                    (arg_url args, attach_payment env (fetchOptions args) auth)]
                 \<and> snd (call_tool rt (with_client env st) ''x402_fetch'' (Some args))
                     = Inr \<lparr>result_text = Failure ''DoublePaymentChallenge'', isError = True\<rparr>)"
proof -
  let ?url = "arg_url args" and ?opts = "fetchOptions args"
  consider (single) "authorizations run = []" "requests run = [(?url, ?opts)]"
    | (paid) auth where "run = retry_with_payment env ?url ?opts auth"
    using client_run_cases [of env ?url ?opts] unfolding run_def by blast
  then show ?thesis
  proof cases
    case single
    then show ?thesis by simp
  next
    case paid
    have a: "authorizations run = [auth]"
      and q: "requests run = [(?url, ?opts), (?url, attach_payment env ?opts auth)]"
      using retry_run [of env ?url ?opts auth] paid by simp_all
    have d: "outcome run = Inl (Error ''DoublePaymentChallenge'')"
      if "transport env 1 ?url (attach_payment env ?opts auth) = Inr r2" "resp_status r2 = 402" for r2
      using retry_double_challenge [OF that] paid by simp
    have f: "snd (call_tool rt (with_client env st) ''x402_fetch'' (Some args))
               = Inr \<lparr>result_text = Failure ''DoublePaymentChallenge'', isError = True\<rparr>"
      if "outcome run = Inl (Error ''DoublePaymentChallenge'')"
    proof -
      have "x402Fetch (with_client env st) ?url ?opts = Inl (Error ''DoublePaymentChallenge'')"
        using that by (simp add: with_client_def run_def)
      then have "snd (x402_fetch_try rt (with_client env st) args) = Inl (Error ''DoublePaymentChallenge'')"
        by (rule fetch_try_throw)
      then show ?thesis by (simp add: call_tool_snd x402_fetch_snd)
    qed
    show ?thesis using a q d f by auto
  qed
qed

theorem at_most_one_payment_witness:
  "authorizations (challenge_retry_client insisting_server (arg_url sample_args) (fetchOptions sample_args))
     = [sample_authorization]
   \<and> transport insisting_server 1 (arg_url sample_args)
        (attach_payment insisting_server (fetchOptions sample_args) sample_authorization)
       = Inr challenge_response
   \<and> resp_status challenge_response = 402
   \<and> outcome (challenge_retry_client insisting_server (arg_url sample_args) (fetchOptions sample_args))
       = Inl (Error ''DoublePaymentChallenge'')
   \<and> snd (call_tool sample_runtime (with_client insisting_server (sample_state (Inl (Error ''unused''))))
            ''x402_fetch'' (Some sample_args))
       = Inr \<lparr>result_text = Failure ''DoublePaymentChallenge'', isError = True\<rparr>"
proof -
  have a: "authorizations (challenge_retry_client insisting_server (arg_url sample_args) (fetchOptions sample_args))
     = [sample_authorization]"
    by (simp add: challenge_retry_client_def insisting_server_def decodeChallenge_def
        challenge_response_def sample_requirement_def decide_def retry_with_payment_def Let_def)
  have t: "transport insisting_server 1 (arg_url sample_args)
        (attach_payment insisting_server (fetchOptions sample_args) sample_authorization)
       = Inr challenge_response"
    by (simp add: insisting_server_def)
  have s: "resp_status challenge_response = 402"
    by (simp add: challenge_response_def)
  show ?thesis
    using at_most_one_payment [of insisting_server sample_args sample_runtime
        "sample_state (Inl (Error ''unused''))"] a t s
    by blast
qed

subsection \<open>The rendering of the amount\<close>

text \<open>
  Claim C6 speaks of every nonzero numeric amount. It fails on the amount
  \<^verbatim>\<open>Infinity\<close>, which \<^verbatim>\<open>JSON.parse\<close> returns for a number too large for a double (the
  receipt \<^verbatim>\<open>{"amount":1e400}\<close> here): \<open>payment.amount\<close> is \<^verbatim>\<open>Infinity USDC\<close>, which has
  no decimal places.
\<close>

theorem amount_infinity_counterexample:
  "truthy (JNum PosInf)
   \<and> snd (call_tool sample_runtime
            (sample_state (Inr (sample_response [''x-payment-response'' \<mapsto> ''eyJhbW91bnQiOjFlNDAwfQ==''])))
            ''x402_fetch'' (Some sample_args))
     = Inr \<lparr>result_text = Success \<lparr>status = 200, statusText = ''OK'', paymentMade = True,
           payment = Some \<lparr>txHash = JNull, amount = Some ''Infinity USDC'',
                            amountRaw = JNum PosInf, network = ''Base Sepolia'',
                            settled = JBool False\<rparr>,
           content = ''hello''\<rparr>, isError = False\<rparr>
   \<and> \<not> has_six_decimals ''Infinity''"
  by (simp add: call_tool_def x402_fetch_def x402_fetch_try_def sample_state_def
      sample_response_def read_content_def or_default_def actualPaymentResponse_def or_str_def
      truthy_str_def settlement_def decode_settlement_def sample_runtime_def sample_atob_def
      sample_json_parse_def paymentInfo_def js_or_def amountUsdc_def Number_def toFixed6_def
      has_six_decimals_def payment_log_def or_NA_def Let_def)

text \<open>
  Claim C6, amended: for every settlement receipt whose decoded amount is a nonzero
  finite number \<open>n\<close> whose quotient \<open>x\<close> by 1000000, as a double, is finite and below
  \<open>10^21\<close> in magnitude, \<open>payment.amount\<close> is \<open>x\<close> rounded to six decimal places and
  written with exactly six decimal places, followed by \<^verbatim>\<open> USDC\<close>, and
  \<open>payment.amountRaw\<close> is \<open>n\<close> itself. When \<open>n\<close> is an integer below \<open>2^52\<close> in
  magnitude, the rounding of the division has no effect: the rendering is that of the
  exact quotient. The amount 500000 yields \<^verbatim>\<open>0.500000 USDC\<close>.
\<close>

theorem amount_rendering:
  assumes "get_prop decoded ''amount'' = Inr (Some (JNum (Fin n)))" and "n \<noteq> 0"
    and "finite_value (div_million (Fin n)) = Some x" and "\<bar>x\<bar> < 10 ^ 21"
  shows "\<exists>p. paymentInfo rt ch decoded = Inr p
             \<and> amount p = Some (six_decimals x @ '' USDC'')
             \<and> has_six_decimals (six_decimals x)
             \<and> amountRaw p = JNum (Fin n)
             \<and> (\<forall>k. n = of_int k \<and> \<bar>k\<bar> < 2 ^ 52
                    \<longrightarrow> six_decimals x = six_decimals (of_int k / 1000000))"
proof -
  obtain kvs where d: "decoded = JObj kvs"
    using assms(1) by (cases decoded) simp_all
  have a: "amountUsdc rt (Some (JNum (Fin n))) = Inr (Some (six_decimals x))"
    using assms(2,3,4) by (rule amountUsdc_finite)
  have i: "six_decimals x = six_decimals (of_int k / 1000000)"
    if "n = of_int k" "\<bar>k\<bar> < 2 ^ 52" for k
  proof -
    have "k \<noteq> 0"
      using assms(2) that(1) by auto
    then show ?thesis
      using that assms(3) by (intro six_decimals_integer) simp_all
  qed
  have "\<exists>p. paymentInfo rt ch decoded = Inr p
             \<and> amount p = Some (six_decimals x @ '' USDC'')
             \<and> has_six_decimals (six_decimals x)
             \<and> amountRaw p = JNum (Fin n)"
    using assms(1,2) a
    by (simp add: d paymentInfo_def js_or_def six_decimals_nonempty has_six_decimals_six_decimals)
  then show ?thesis
    using i by blast
qed

theorem amount_rendering_witness:
  "\<exists>p. paymentInfo sample_runtime baseSepolia (JObj [(''amount'', JNum (Fin 500000))]) = Inr p
       \<and> amount p = Some ''0.500000 USDC''
       \<and> has_six_decimals ''0.500000''
       \<and> amountRaw p = JNum (Fin 500000)
       \<and> six_decimals (rat_of_int 500000 / 1000000) = ''0.500000''"
proof -
  have g: "get_prop (JObj [(''amount'', JNum (Fin 500000))]) ''amount'' = Inr (Some (JNum (Fin 500000)))"
    by simp
  have f: "finite_value (div_million (Fin 500000)) = Some (1 / 2)"
    by (simp add: div_million_500000 finite_value_def del: div_million.simps)
  have s: "six_decimals (1 / 2) = ''0.500000''"
    using toFixed6_six_decimals [of "1 / 2" sample_runtime] by (simp add: toFixed6_half)
  have "\<exists>p. paymentInfo sample_runtime baseSepolia (JObj [(''amount'', JNum (Fin 500000))]) = Inr p
             \<and> amount p = Some (six_decimals (1 / 2) @ '' USDC'')
             \<and> has_six_decimals (six_decimals (1 / 2))
             \<and> amountRaw p = JNum (Fin 500000)
             \<and> (\<forall>k. (500000::rat) = of_int k \<and> \<bar>k\<bar> < 2 ^ 52
                    \<longrightarrow> six_decimals (1 / 2) = six_decimals (of_int k / 1000000))"
    by (rule amount_rendering [OF g _ f]) simp_all
  then obtain p where p: "paymentInfo sample_runtime baseSepolia (JObj [(''amount'', JNum (Fin 500000))]) = Inr p"
      "amount p = Some (six_decimals (1 / 2) @ '' USDC'')" "has_six_decimals (six_decimals (1 / 2))"
      "amountRaw p = JNum (Fin 500000)"
    and k: "\<forall>k. (500000::rat) = of_int k \<and> \<bar>k\<bar> < 2 ^ 52
                    \<longrightarrow> six_decimals (1 / 2) = six_decimals (of_int k / 1000000)"
    by blast
  have "(500000::rat) = of_int 500000 \<and> \<bar>500000::int\<bar> < 2 ^ 52"
    by simp
  then have "six_decimals (1 / 2) = six_decimals (rat_of_int 500000 / 1000000)"
    using k by blast
  then show ?thesis
    using p by (intro exI [of _ p]) (simp add: s)
qed

end
